theory Spec2Isabelle
  imports Complex_Main "HOL-Library.Word" "HOL-Library.Code_Target_Numeral"
begin

section \<open>JavaScript strings and numbers\<close>

text \<open>
  A JavaScript string is a sequence of 16-bit code units. String literals of the source
  are ASCII and are written \<open>js ''...''\<close>.
\<close>

type_synonym jschar = "16 word"
type_synonym jsstring = "jschar list"

definition js :: "string \<Rightarrow> jsstring" where
  "js s = map of_char s"

text \<open>
  The code points that \<open>String.prototype.trim\<close> strips and that \<open>\s\<close> matches:
  the WhiteSpace and LineTerminator productions of ECMAScript.
\<close>

definition is_js_whitespace :: "jschar \<Rightarrow> bool" where
  "is_js_whitespace c \<longleftrightarrow>
     c \<in> {0x09, 0x0A, 0x0B, 0x0C, 0x0D, 0x20, 0xA0, 0x1680, 0x2028, 0x2029, 0x202F,
          0x205F, 0x3000, 0xFEFF}
     \<or> (0x2000 \<le> c \<and> c \<le> 0x200A)"

definition js_trim :: "jsstring \<Rightarrow> jsstring" where
  "js_trim s = rev (dropWhile is_js_whitespace (rev (dropWhile is_js_whitespace s)))"

definition is_digit :: "jschar \<Rightarrow> bool" where
  "is_digit c \<longleftrightarrow> 0x30 \<le> c \<and> c \<le> 0x39"

definition digit_val :: "jschar \<Rightarrow> nat" where
  "digit_val c = unat (c - 0x30)"

definition digits_val :: "jsstring \<Rightarrow> nat" where
  "digits_val ds = foldl (\<lambda>n c. 10 * n + digit_val c) 0 ds"

text \<open>
  A JavaScript number is an IEEE 754 double: a finite value, \<open>Infinity\<close> or
  \<open>-Infinity\<close>. No expression of this program yields \<open>NaN\<close> (JSON has no
  \<open>NaN\<close>, and \<open>parseInt\<close> is applied to digits only), and the two zeros,
  which are equal under \<open>===\<close> and both falsy, are one value here.
\<close>

datatype number = Num real | Infinity | MinusInfinity

fun negate :: "number \<Rightarrow> number" where
  "negate (Num r) = Num (- r)"
| "negate Infinity = MinusInfinity"
| "negate MinusInfinity = Infinity"

text \<open>
  The double nearest to the fraction \<open>n / d\<close> (for \<open>d > 0\<close>), a tie going to the
  even significand: this is how a decimal literal, the text of a JSON number and the
  digits given to \<open>parseInt\<close> become a number. \<open>bits n\<close> is the number of binary
  digits of \<open>n\<close>; \<open>scaled n d p\<close> is the fraction \<open>n / (d * 2^p)\<close>;
  \<open>binade n d\<close> is the \<open>e\<close> with \<open>2^e \<le> n / d < 2^(e+1)\<close>. A double has 53
  significant bits above \<open>2^-1022\<close> and is a multiple of \<open>2^-1074\<close> below; a
  value that rounds to \<open>2^1024\<close> or more is \<open>Infinity\<close>.
\<close>

fun bits :: "nat \<Rightarrow> nat" where
  "bits n = (if n = 0 then 0 else Suc (bits (n div 2)))"

declare bits.simps [simp del]

definition scaled :: "nat \<Rightarrow> nat \<Rightarrow> int \<Rightarrow> nat \<times> nat" where
  "scaled n d p = (if 0 \<le> p then (n, d * 2 ^ nat p) else (n * 2 ^ nat (- p), d))"

definition binade :: "nat \<Rightarrow> nat \<Rightarrow> int" where
  "binade n d =
     (let k = int (bits n) - int (bits d); (a, b) = scaled n d k
      in if b \<le> a then k else k - 1)"

definition half_even :: "nat \<Rightarrow> nat \<Rightarrow> nat" where
  "half_even a b =
     (let q = a div b; r = a mod b
      in if 2 * r < b \<or> (2 * r = b \<and> even q) then q else q + 1)"

definition ldexp :: "nat \<Rightarrow> int \<Rightarrow> real" where
  "ldexp m p = (if 0 \<le> p then of_nat (m * 2 ^ nat p) else of_nat m / 2 ^ nat (- p))"

definition to_double :: "nat \<Rightarrow> nat \<Rightarrow> number" where
  "to_double n d =
     (if d * 2 ^ 1024 \<le> n then Infinity
      else if n * 2 ^ 1075 \<le> d then Num 0
      else
        (let p = max (binade n d) (- 1022) - 52;
             (a, b) = scaled n d p;
             v = ldexp (half_even a b) p
         in if 2 ^ 1024 \<le> v then Infinity else Num v))"

text \<open>
  \<open>parseInt(s, 10)\<close> on a non-empty string of decimal digits, which is what every
  capture of \<open>(\d+)\<close> is (lemma \<open>js_match_digits\<close> below): the double nearest to
  the integer that the digits denote. (ECMAScript lets an engine read the digits after
  the twentieth as zeros; that changes no statement below.)
\<close>

definition parseInt :: "jsstring \<Rightarrow> number" where
  "parseInt ds = to_double (digits_val ds) 1"

text \<open>
  \<open>Math.round\<close>: the nearest integer, a tie going towards positive infinity; an
  infinity is returned as it is.
\<close>

definition Math_round :: "number \<Rightarrow> number" where
  "Math_round x = (case x of Num r \<Rightarrow> Num (of_int \<lfloor>r + 1 / 2\<rfloor>) | _ \<Rightarrow> x)"

text \<open>Properties of numbers that the statements below use.\<close>

definition is_integer :: "number \<Rightarrow> bool" where
  "is_integer x = (case x of Num r \<Rightarrow> of_int \<lfloor>r\<rfloor> = r | _ \<Rightarrow> False)"

definition is_negative :: "number \<Rightarrow> bool" where
  "is_negative x = (case x of Num r \<Rightarrow> r < 0 | Infinity \<Rightarrow> False | MinusInfinity \<Rightarrow> True)"

definition integer_or_infinite :: "number \<Rightarrow> bool" where
  "integer_or_infinite x \<longleftrightarrow> is_integer x \<or> x = Infinity \<or> x = MinusInfinity"

definition natural_or_Infinity :: "number \<Rightarrow> bool" where
  "natural_or_Infinity x \<longleftrightarrow> (is_integer x \<and> \<not> is_negative x) \<or> x = Infinity"

text \<open>\<open>y\<close> is \<open>x\<close> rounded to the nearest integer, a tie going up.\<close>

definition nearest_integer :: "real \<Rightarrow> real \<Rightarrow> bool" where
  "nearest_integer x y \<longleftrightarrow> of_int \<lfloor>y\<rfloor> = y \<and> x - 1 / 2 < y \<and> y \<le> x + 1 / 2"

section \<open>JSON values and \<open>JSON.parse\<close>\<close>

text \<open>
  The members of an object are kept in the order of the text; a duplicated key reads as
  its last occurrence. \<open>undefined\<close> is not a JSON value: a property that is absent
  reads as \<open>None\<close>.
\<close>

datatype json =
    JNull
  | JBool bool
  | JNumber number
  | JString jsstring
  | JArray "json list"
  | JObject "(jsstring \<times> json) list"

definition truthy :: "json \<Rightarrow> bool" where
  "truthy v =
     (case v of
        JNull \<Rightarrow> False
      | JBool b \<Rightarrow> b
      | JNumber q \<Rightarrow> q \<noteq> Num 0
      | JString s \<Rightarrow> s \<noteq> []
      | _ \<Rightarrow> True)"

text \<open>\<open>v || d\<close>, for a property value \<open>v\<close> that may be \<open>undefined\<close>.\<close>

definition or_default :: "json option \<Rightarrow> json \<Rightarrow> json" where
  "or_default v d = (case v of None \<Rightarrow> d | Some x \<Rightarrow> if truthy x then x else d)"

definition own_property :: "(jsstring \<times> json) list \<Rightarrow> string \<Rightarrow> json option" where
  "own_property kvs k = map_of (rev kvs) (js k)"

text \<open>
  \<open>parsed.k\<close> for a value that is not \<open>null\<close> and one of the seven property
  names the parser reads: booleans, numbers, strings and arrays have no property of
  these names. (Reading a property of \<open>null\<close> throws.)
\<close>

definition property :: "json \<Rightarrow> string \<Rightarrow> json option" where
  "property v k = (case v of JObject kvs \<Rightarrow> own_property kvs k | _ \<Rightarrow> None)"

text \<open>\<open>typeof parsed.k === 'number'\<close>, with the number.\<close>

definition number_property :: "json \<Rightarrow> string \<Rightarrow> number option" where
  "number_property v k = (case property v k of Some (JNumber q) \<Rightarrow> Some q | _ \<Rightarrow> None)"

subsection \<open>Tokens\<close>

text \<open>
  \<open>JSON.parse\<close> is the platform's; it is modelled after the JSON grammar
  (ECMA-404): a lexer, then a parser that keeps the open arrays and objects on a stack.
\<close>

datatype token =
    TLBrace | TRBrace | TLBrack | TRBrack | TComma | TColon
  | TStr jsstring | TNum number | TTrue | TFalse | TNull

definition hex_val :: "jschar \<Rightarrow> nat option" where
  "hex_val c =
     (if 0x30 \<le> c \<and> c \<le> 0x39 then Some (unat (c - 0x30))
      else if 0x41 \<le> c \<and> c \<le> 0x46 then Some (unat (c - 0x41) + 10)
      else if 0x61 \<le> c \<and> c \<le> 0x66 then Some (unat (c - 0x61) + 10)
      else None)"

definition unescape :: "jschar \<Rightarrow> jschar option" where
  "unescape e =
     (if e = 0x22 \<or> e = 0x5C \<or> e = 0x2F then Some e
      else if e = 0x62 then Some 0x08
      else if e = 0x66 then Some 0x0C
      else if e = 0x6E then Some 0x0A
      else if e = 0x72 then Some 0x0D
      else if e = 0x74 then Some 0x09
      else None)"

text \<open>The text after a backslash: the character it stands for and the rest.\<close>

fun lex_escape :: "jsstring \<Rightarrow> (jschar \<times> jsstring) option" where
  "lex_escape [] = None"
| "lex_escape (e # r) =
     (if e = 0x75 then
        (case r of
           h1 # h2 # h3 # h4 # r' \<Rightarrow>
             (case (hex_val h1, hex_val h2, hex_val h3, hex_val h4) of
                (Some a, Some b, Some c, Some d) \<Rightarrow>
                  Some (of_nat (((a * 16 + b) * 16 + c) * 16 + d), r')
              | _ \<Rightarrow> None)
         | _ \<Rightarrow> None)
      else map_option (\<lambda>x. (x, r)) (unescape e))"

lemma lex_escape_length: "lex_escape s = Some (x, r) \<Longrightarrow> length r < length s"
  by (cases s) (auto split: if_splits list.splits option.splits)

text \<open>The text after an opening quote: the string's value and the rest.\<close>

function lex_string :: "jsstring \<Rightarrow> jsstring \<Rightarrow> (jsstring \<times> jsstring) option" where
  "lex_string acc [] = None"
| "lex_string acc (c # cs) =
     (if c = 0x22 then Some (rev acc, cs)
      else if c = 0x5C then
        (case lex_escape cs of
           None \<Rightarrow> None
         | Some (x, r) \<Rightarrow> lex_string (x # acc) r)
      else if c < 0x20 then None
      else lex_string (c # acc) cs)"
  by pat_completeness auto
termination
  by (relation "measure (\<lambda>(acc, s). length s)") (auto dest: lex_escape_length)

lemma lex_string_length:
  "lex_string acc s = Some (str, r) \<Longrightarrow> length r < length s"
proof (induction acc s rule: lex_string.induct)
  case (1 acc)
  then show ?case by simp
next
  case (2 acc c cs)
  show ?case
  proof (cases "c = 0x22")
    case True
    with 2 show ?thesis by simp
  next
    case notq: False
    show ?thesis
    proof (cases "c = 0x5C")
      case True
      with notq 2(3) obtain x r' where e: "lex_escape cs = Some (x, r')"
        and l: "lex_string (x # acc) r' = Some (str, r)"
        by (auto split: option.splits)
      from 2(1) [OF notq True e refl l] lex_escape_length [OF e] show ?thesis by simp
    next
      case False
      with notq 2(3) have "\<not> c < 0x20" and l: "lex_string (c # acc) cs = Some (str, r)"
        by (auto split: if_splits)
      from 2(2) [OF notq False this] show ?thesis by simp
    qed
  qed
qed

definition number_char :: "jschar \<Rightarrow> bool" where
  "number_char c \<longleftrightarrow> is_digit c \<or> c \<in> {0x2B, 0x2D, 0x2E, 0x45, 0x65}"

text \<open>The double nearest to \<open>m * 10^e\<close>.\<close>

definition decimal :: "nat \<Rightarrow> int \<Rightarrow> number" where
  "decimal m e = (if 0 \<le> e then to_double (m * 10 ^ nat e) 1 else to_double m (10 ^ nat (- e)))"

definition parse_exponent :: "jsstring \<Rightarrow> int option" where
  "parse_exponent s =
     (case s of
        [] \<Rightarrow> Some 0
      | c # r \<Rightarrow>
          if c = 0x45 \<or> c = 0x65 then
            (let (neg, ds) =
               (case r of
                  [] \<Rightarrow> (False, r)
                | g # r' \<Rightarrow>
                    if g = 0x2D then (True, r')
                    else if g = 0x2B then (False, r') else (False, r))
             in if ds \<noteq> [] \<and> list_all is_digit ds
                then Some (if neg then - int (digits_val ds) else int (digits_val ds))
                else None)
          else None)"

text \<open>
  A number: an optional minus, an integer part without a leading zero, an optional
  fraction and an optional exponent, and nothing after them. Its value is the double
  nearest to the decimal that the text denotes.
\<close>

definition parse_number :: "jsstring \<Rightarrow> number option" where
  "parse_number s =
     (let (neg, s1) =
        (case s of [] \<Rightarrow> (False, s) | c # r \<Rightarrow> if c = 0x2D then (True, r) else (False, s));
          ip = takeWhile is_digit s1;
          s2 = dropWhile is_digit s1
      in if ip = [] \<or> (hd ip = 0x30 \<and> length ip > 1) then None
         else
           (let (fp, s3) =
              (case s2 of
                 [] \<Rightarrow> (Some [], s2)
               | c # r \<Rightarrow>
                   if c = 0x2E
                   then (if takeWhile is_digit r = [] then None
                         else Some (takeWhile is_digit r), dropWhile is_digit r)
                   else (Some [], s2))
            in case fp of
                 None \<Rightarrow> None
               | Some fd \<Rightarrow>
                   (case parse_exponent s3 of
                      None \<Rightarrow> None
                    | Some e \<Rightarrow>
                        Some ((if neg then negate else id)
                                (decimal (digits_val (ip @ fd)) (e - int (length fd)))))))"

definition starts_with :: "string \<Rightarrow> jsstring \<Rightarrow> bool" where
  "starts_with w s \<longleftrightarrow> take (length w) s = js w"

function lex :: "jsstring \<Rightarrow> token list option" where
  "lex [] = Some []"
| "lex (c # cs) =
     (if c = 0x20 \<or> c = 0x09 \<or> c = 0x0A \<or> c = 0x0D then lex cs
      else if c = 0x7B then map_option ((#) TLBrace) (lex cs)
      else if c = 0x7D then map_option ((#) TRBrace) (lex cs)
      else if c = 0x5B then map_option ((#) TLBrack) (lex cs)
      else if c = 0x5D then map_option ((#) TRBrack) (lex cs)
      else if c = 0x2C then map_option ((#) TComma) (lex cs)
      else if c = 0x3A then map_option ((#) TColon) (lex cs)
      else if c = 0x22 then
        (case lex_string [] cs of
           None \<Rightarrow> None
         | Some (str, r) \<Rightarrow> map_option ((#) (TStr str)) (lex r))
      else if c = 0x2D \<or> is_digit c then
        (case parse_number (c # takeWhile number_char cs) of
           None \<Rightarrow> None
         | Some q \<Rightarrow> map_option ((#) (TNum q)) (lex (dropWhile number_char cs)))
      else if starts_with ''true'' (c # cs) then map_option ((#) TTrue) (lex (drop 3 cs))
      else if starts_with ''false'' (c # cs) then map_option ((#) TFalse) (lex (drop 4 cs))
      else if starts_with ''null'' (c # cs) then map_option ((#) TNull) (lex (drop 3 cs))
      else None)"
  by pat_completeness auto
termination
  by (relation "measure length")
     (auto simp: less_Suc_eq_le length_dropWhile_le dest: lex_string_length)

subsection \<open>Parser\<close>

text \<open>
  An open array with the elements read so far, or an open object with the members read
  so far and the key whose value is being read (both newest first).
\<close>

datatype frame =
    InArray "json list"
  | InObject "(jsstring \<times> json) list" jsstring

datatype pstate =
    WantValue "frame list"
  | ArrayStart "frame list"
  | ObjectStart "frame list"
  | AfterElement "json list" "frame list"
  | AfterMember "(jsstring \<times> json) list" "frame list"
  | WantKey "(jsstring \<times> json) list" "frame list"
  | WantColon jsstring "(jsstring \<times> json) list" "frame list"
  | Done json

fun complete :: "json \<Rightarrow> frame list \<Rightarrow> pstate" where
  "complete v [] = Done v"
| "complete v (InArray xs # st) = AfterElement (v # xs) st"
| "complete v (InObject kvs k # st) = AfterMember ((k, v) # kvs) st"

fun begin_value :: "token \<Rightarrow> frame list \<Rightarrow> pstate option" where
  "begin_value (TStr s) st = Some (complete (JString s) st)"
| "begin_value (TNum q) st = Some (complete (JNumber q) st)"
| "begin_value TTrue st = Some (complete (JBool True) st)"
| "begin_value TFalse st = Some (complete (JBool False) st)"
| "begin_value TNull st = Some (complete JNull st)"
| "begin_value TLBrack st = Some (ArrayStart st)"
| "begin_value TLBrace st = Some (ObjectStart st)"
| "begin_value _ st = None"

fun parse_step :: "pstate \<Rightarrow> token \<Rightarrow> pstate option" where
  "parse_step (WantValue st) t = begin_value t st"
| "parse_step (ArrayStart st) t =
     (if t = TRBrack then Some (complete (JArray []) st) else begin_value t (InArray [] # st))"
| "parse_step (ObjectStart st) t =
     (case t of
        TRBrace \<Rightarrow> Some (complete (JObject []) st)
      | TStr k \<Rightarrow> Some (WantColon k [] st)
      | _ \<Rightarrow> None)"
| "parse_step (AfterElement xs st) t =
     (case t of
        TComma \<Rightarrow> Some (WantValue (InArray xs # st))
      | TRBrack \<Rightarrow> Some (complete (JArray (rev xs)) st)
      | _ \<Rightarrow> None)"
| "parse_step (AfterMember kvs st) t =
     (case t of
        TComma \<Rightarrow> Some (WantKey kvs st)
      | TRBrace \<Rightarrow> Some (complete (JObject (rev kvs)) st)
      | _ \<Rightarrow> None)"
| "parse_step (WantKey kvs st) t =
     (case t of TStr k \<Rightarrow> Some (WantColon k kvs st) | _ \<Rightarrow> None)"
| "parse_step (WantColon k kvs st) t =
     (case t of TColon \<Rightarrow> Some (WantValue (InObject kvs k # st)) | _ \<Rightarrow> None)"
| "parse_step (Done v) t = None"

fun parse_tokens :: "pstate \<Rightarrow> token list \<Rightarrow> pstate option" where
  "parse_tokens p [] = Some p"
| "parse_tokens p (t # ts) =
     (case parse_step p t of None \<Rightarrow> None | Some p' \<Rightarrow> parse_tokens p' ts)"

text \<open>\<open>None\<close> is the SyntaxError of \<open>JSON.parse\<close>.\<close>

definition JSON_parse :: "jsstring \<Rightarrow> json option" where
  "JSON_parse s =
     (case lex s of
        None \<Rightarrow> None
      | Some ts \<Rightarrow>
          (case parse_tokens (WantValue []) ts of
             Some (Done v) \<Rightarrow> Some v
           | _ \<Rightarrow> None))"

section \<open>The regular expressions of the fallback\<close>

text \<open>
  The four patterns use digits, white space and ASCII letters under the \<open>i\<close> flag
  (without the \<open>u\<close> flag a letter matches exactly its two ASCII cases), sequence,
  alternative, \<open>?\<close>, and \<open>*\<close> and \<open>+\<close> on character classes only.
  \<open>rx_run r s\<close> lists the rests of \<open>s\<close> after every way \<open>r\<close> matches a prefix,
  in the order in which a backtracking matcher tries them (quantifiers are greedy).
\<close>

datatype cclass = Digit | Space | Letter char

fun cmatch :: "cclass \<Rightarrow> jschar \<Rightarrow> bool" where
  "cmatch Digit c = is_digit c"
| "cmatch Space c = is_js_whitespace c"
| "cmatch (Letter x) c = (c = of_char x \<or> c = of_char x - 0x20)"

datatype regex =
    Eps
  | Atom cclass
  | Star cclass
  | Plus cclass
  | Seq regex regex
  | Alt regex regex
  | Opt regex

fun star_run :: "cclass \<Rightarrow> jsstring \<Rightarrow> jsstring list" where
  "star_run k [] = [[]]"
| "star_run k (c # cs) = (if cmatch k c then star_run k cs @ [c # cs] else [c # cs])"

fun rx_run :: "regex \<Rightarrow> jsstring \<Rightarrow> jsstring list" where
  "rx_run Eps s = [s]"
| "rx_run (Atom k) s = (case s of [] \<Rightarrow> [] | c # cs \<Rightarrow> if cmatch k c then [cs] else [])"
| "rx_run (Star k) s = star_run k s"
| "rx_run (Plus k) s =
     (case s of [] \<Rightarrow> [] | c # cs \<Rightarrow> if cmatch k c then star_run k cs else [])"
| "rx_run (Seq a b) s = concat (map (rx_run b) (rx_run a s))"
| "rx_run (Alt a b) s = rx_run a s @ rx_run b s"
| "rx_run (Opt a) s = rx_run a s @ [s]"

text \<open>A word of lower-case letters, as a pattern.\<close>

fun lit :: "string \<Rightarrow> regex" where
  "lit [] = Eps"
| "lit (x # xs) = Seq (Atom (Letter x)) (lit xs)"

text \<open>
  \<open>text.match(/(a)b/i)\<close> for a pattern that is a capture group \<open>a\<close> followed by
  \<open>b\<close>: the first position at which the pattern matches, and there the first way of
  matching \<open>a\<close> after which \<open>b\<close> matches. The result is the text of the group;
  \<open>None\<close> is the \<open>null\<close> of a failed match.
\<close>

fun first_success :: "regex \<Rightarrow> jsstring list \<Rightarrow> jsstring option" where
  "first_success b [] = None"
| "first_success b (t # ts) =
     (case rx_run b t of [] \<Rightarrow> first_success b ts | _ # _ \<Rightarrow> Some t)"

definition match_here :: "regex \<Rightarrow> regex \<Rightarrow> jsstring \<Rightarrow> jsstring option" where
  "match_here a b s =
     (case first_success b (rx_run a s) of
        None \<Rightarrow> None
      | Some t \<Rightarrow> Some (take (length s - length t) s))"

fun js_match :: "regex \<Rightarrow> regex \<Rightarrow> jsstring \<Rightarrow> jsstring option" where
  "js_match a b [] = match_here a b []"
| "js_match a b (c # cs) =
     (case match_here a b (c # cs) of
        Some g \<Rightarrow> Some g
      | None \<Rightarrow> js_match a b cs)"

text \<open>What follows \<open>(\d+)\<close> in the calorie pattern: \<open>\s*(?:cal|kcal|calories)\<close>.\<close>

definition calorie_tail :: regex where
  "calorie_tail = Seq (Star Space) (Alt (lit ''cal'') (Alt (lit ''kcal'') (lit ''calories'')))"

text \<open>
  What follows \<open>(\d+)\<close> in the other three: \<open>\s*(?:g|grams?)?\s*(?:of\s+)?w\<close>,
  for \<open>w\<close> one of \<open>protein\<close>, \<open>carb\<close> and \<open>fat\<close>.
\<close>

definition macro_tail :: "string \<Rightarrow> regex" where
  "macro_tail w =
     Seq (Star Space)
       (Seq (Opt (Alt (lit ''g'') (Seq (lit ''gram'') (Opt (lit ''s'')))))
          (Seq (Star Space)
             (Seq (Opt (Seq (lit ''of'') (Plus Space))) (lit w))))"

text \<open>
  To state that a match does not depend on the case of ASCII letters: the upper-case
  form of a text, and the patterns whose letters are written in lower case, as those of
  the source are.
\<close>

definition is_lower :: "jschar \<Rightarrow> bool" where
  "is_lower c \<longleftrightarrow> 0x61 \<le> c \<and> c \<le> 0x7A"

definition ascii_upper :: "jschar \<Rightarrow> jschar" where
  "ascii_upper c = (if is_lower c then c - 0x20 else c)"

fun lower_class :: "cclass \<Rightarrow> bool" where
  "lower_class (Letter x) = is_lower (of_char x)"
| "lower_class _ = True"

fun lower_regex :: "regex \<Rightarrow> bool" where
  "lower_regex Eps = True"
| "lower_regex (Atom k) = lower_class k"
| "lower_regex (Star k) = lower_class k"
| "lower_regex (Plus k) = lower_class k"
| "lower_regex (Seq a b) = (lower_regex a \<and> lower_regex b)"
| "lower_regex (Alt a b) = (lower_regex a \<and> lower_regex b)"
| "lower_regex (Opt a) = lower_regex a"

section \<open>Errors and results\<close>

text \<open>
  \<open>createAPIError\<close> builds a plain object literal with the three fields
  \<open>message\<close>, \<open>code\<close> and \<open>retryable\<close>; the code is an arbitrary string.
\<close>

record APIError =
  message :: jsstring
  code :: jsstring
  retryable :: bool

definition createAPIError :: "jsstring \<Rightarrow> jsstring \<Rightarrow> bool \<Rightarrow> APIError" where
  "createAPIError m c r = \<lparr>message = m, code = c, retryable = r\<rparr>"

text \<open>
  The fields of an axios error that \<open>handleAPIError\<close> reads: \<open>error.code\<close>
  (absent on some errors), \<open>error.response\<close> (absent when no HTTP response was
  received; otherwise only its \<open>status\<close> is read) and \<open>error.message\<close>.
\<close>

record AxiosError =
  ae_code :: "jsstring option"
  ae_response :: "int option"
  ae_message :: jsstring

text \<open>
  What a \<open>catch\<close> clause can receive. \<open>axios.isAxiosError\<close> holds exactly of the
  first alternative (an object whose \<open>isAxiosError\<close> property is \<open>true\<close>);
  \<open>instanceof Error\<close> holds of the first two. The object literal built by
  \<open>createAPIError\<close> has neither property, and \<open>OtherValue\<close> stands for every
  other thrown value.
\<close>

datatype thrown =
    ThrownAxios AxiosError
  | ThrownError jsstring
  | ThrownAPIError APIError
  | OtherValue

text \<open>
  The fields of a result are what the object literals of the source hold at run time:
  numbers in the four macro fields, and in the JSON path whatever JSON value the
  response carried in the other three.
\<close>

record AIAnalysisResult =
  calories :: number
  protein :: number
  carbs :: number
  fat :: number
  explanation :: json
  confidence :: json
  sources :: json

definition handleAPIError :: "thrown \<Rightarrow> APIError" where
  "handleAPIError error =
     (case error of
        ThrownAxios axiosError \<Rightarrow>
          if ae_code axiosError = Some (js ''ECONNABORTED'') \<or>
             ae_code axiosError = Some (js ''ETIMEDOUT'')
          then createAPIError (js ''Request timed out. Please check your connection.'')
                 (js ''TIMEOUT'') True
          else (case ae_response axiosError of
              None \<Rightarrow>
                createAPIError (js ''Network error. Please check your internet connection.'')
                  (js ''NETWORK_ERROR'') True
            | Some status \<Rightarrow>
                if status = 401
                then createAPIError (js ''Invalid API key. Please check your configuration.'')
                       (js ''AUTH_ERROR'') False
                else if status = 429
                then createAPIError (js ''Rate limit exceeded. Please wait a moment.'')
                       (js ''RATE_LIMIT'') True
                else if status \<ge> 500
                then createAPIError (js ''AI service is temporarily unavailable.'')
                       (js ''SERVER_ERROR'') True
                else createAPIError (js ''API error: '' @ ae_message axiosError)
                       (js ''API_ERROR'') True)
      | ThrownError msg \<Rightarrow> createAPIError msg (js ''UNKNOWN_ERROR'') False
      | _ \<Rightarrow> createAPIError (js ''An unexpected error occurred'') (js ''UNKNOWN_ERROR'') False)"

text \<open>The timeout test of \<open>handleAPIError\<close>, named for the statements below.\<close>

definition timed_out :: "AxiosError \<Rightarrow> bool" where
  "timed_out e \<longleftrightarrow>
     ae_code e = Some (js ''ECONNABORTED'') \<or> ae_code e = Some (js ''ETIMEDOUT'')"

text \<open>The ten error kinds of the specification.\<close>

definition error_kinds :: "jsstring list" where
  "error_kinds = map js
     [''TIMEOUT'', ''NETWORK_ERROR'', ''AUTH_ERROR'', ''RATE_LIMIT'', ''SERVER_ERROR'',
      ''API_ERROR'', ''EMPTY_RESPONSE'', ''EMPTY_INPUT'', ''PARSE_ERROR'', ''UNKNOWN_ERROR'']"

section \<open>Parsing the response text\<close>

text \<open>
  The literals \<open>0.6\<close>, \<open>0.8\<close> and \<open>0.3\<close> of the source are the doubles nearest to
  these decimals, \<open>to_double 6 10\<close> and so on.
\<close>

definition extractNutritionFromText :: "jsstring \<Rightarrow> thrown + AIAnalysisResult" where
  "extractNutritionFromText text =
     (let calorieMatch = js_match (Plus Digit) calorie_tail text;
          proteinMatch = js_match (Plus Digit) (macro_tail ''protein'') text;
          carbsMatch = js_match (Plus Digit) (macro_tail ''carb'') text;
          fatMatch = js_match (Plus Digit) (macro_tail ''fat'') text
      in case calorieMatch of
           None \<Rightarrow>
             Inl (ThrownAPIError
               (createAPIError (js ''Could not extract calorie information from AI response'')
                  (js ''PARSE_ERROR'') False))
         | Some cal \<Rightarrow>
             Inr \<lparr>calories = parseInt cal,
                  protein = (case proteinMatch of Some g \<Rightarrow> parseInt g | None \<Rightarrow> Num 20),
                  carbs = (case carbsMatch of Some g \<Rightarrow> parseInt g | None \<Rightarrow> Num 30),
                  fat = (case fatMatch of Some g \<Rightarrow> parseInt g | None \<Rightarrow> Num 10),
                  explanation = JString (take 500 text),
                  confidence = JNumber (to_double 6 10),
                  sources = JArray []\<rparr>)"

text \<open>
  The body of the \<open>try\<close> block of \<open>parseAIResponse\<close>: \<open>None\<close> when anything in
  it throws (the SyntaxError of \<open>JSON.parse\<close>, the TypeError of reading a property of
  \<open>null\<close>, or the Error of the validation).
\<close>

definition decode_strict :: "jsstring \<Rightarrow> AIAnalysisResult option" where
  "decode_strict content =
     (case JSON_parse content of
        None \<Rightarrow> None
      | Some parsed \<Rightarrow>
          if parsed = JNull then None
          else
            (case (number_property parsed ''calories'', number_property parsed ''protein'',
                   number_property parsed ''carbs'', number_property parsed ''fat'') of
               (Some c, Some p, Some b, Some f) \<Rightarrow>
                 Some \<lparr>calories = Math_round c,
                       protein = Math_round p,
                       carbs = Math_round b,
                       fat = Math_round f,
                       explanation =
                         or_default (property parsed ''explanation'')
                           (JString (js ''No explanation provided'')),
                       confidence =
                         or_default (property parsed ''confidence'')
                           (JNumber (to_double 8 10)),
                       sources = or_default (property parsed ''sources'') (JArray [])\<rparr>
             | _ \<Rightarrow> None))"

definition parseAIResponse :: "jsstring \<Rightarrow> thrown + AIAnalysisResult" where
  "parseAIResponse content =
     (case decode_strict content of
        Some r \<Rightarrow> Inr r
      | None \<Rightarrow> extractNutritionFromText content)"

text \<open>A confidence that is a number between 0 and 1.\<close>

definition in_unit_interval :: "json \<Rightarrow> bool" where
  "in_unit_interval v = (case v of JNumber (Num q) \<Rightarrow> 0 \<le> q \<and> q \<le> 1 | _ \<Rightarrow> False)"

section \<open>Configuration and requests\<close>

datatype AIProvider = OpenRouter | Perplexity

record ProviderSettings =
  apiKey :: jsstring
  model :: jsstring
  baseURL :: jsstring

record EnvConfig =
  aiProvider :: AIProvider
  openRouter :: ProviderSettings
  perplexity :: ProviderSettings
  debugMode :: bool

record ProviderConfig = ProviderSettings +
  provider :: AIProvider

text \<open>
  The configuration object of \<open>config/env.ts\<close>, as a function of the two environment
  variables it reads (\<open>None\<close> when a variable is unset or empty).
\<close>

definition config :: "jsstring option \<Rightarrow> jsstring option \<Rightarrow> EnvConfig" where
  "config OPENROUTER_API_KEY PERPLEXITY_API_KEY =
     \<lparr>aiProvider = OpenRouter,
      openRouter =
        \<lparr>apiKey = (case OPENROUTER_API_KEY of Some k \<Rightarrow> k
                     | None \<Rightarrow> js ''YOUR_OPENROUTER_API_KEY''),
         model = js ''google/gemini-2.0-flash-exp:free'',
         baseURL = js ''https://openrouter.ai/api/v1''\<rparr>,
      perplexity =
        \<lparr>apiKey = (case PERPLEXITY_API_KEY of Some k \<Rightarrow> k
                     | None \<Rightarrow> js ''YOUR_PERPLEXITY_API_KEY''),
         model = js ''llama-3.1-sonar-small-128k-online'',
         baseURL = js ''https://api.perplexity.ai''\<rparr>,
      debugMode = True\<rparr>"

definition getCurrentProviderConfig :: "EnvConfig \<Rightarrow> ProviderConfig" where
  "getCurrentProviderConfig cfg =
     (if aiProvider cfg = OpenRouter
      then \<lparr>apiKey = apiKey (openRouter cfg), model = model (openRouter cfg),
            baseURL = baseURL (openRouter cfg), provider = OpenRouter\<rparr>
      else \<lparr>apiKey = apiKey (perplexity cfg), model = model (perplexity cfg),
            baseURL = baseURL (perplexity cfg), provider = Perplexity\<rparr>)"

text \<open>The configuration with the provider toggled to Perplexity.\<close>

definition perplexity_config :: EnvConfig where
  "perplexity_config = (config None None)\<lparr>aiProvider := Perplexity\<rparr>"

definition NUTRITION_PROMPT :: jsstring where
  "NUTRITION_PROMPT = js
     (''You are a nutrition analysis assistant. When given a meal description, analyze and return the nutritional information in the following JSON format:''
      @ [CHR 0x0A, CHR 0x0A] @ ''{'' @ [CHR 0x0A]
      @ ''  \"calories\": <number>,'' @ [CHR 0x0A]
      @ ''  \"protein\": <number in grams>,'' @ [CHR 0x0A]
      @ ''  \"carbs\": <number in grams>,'' @ [CHR 0x0A]
      @ ''  \"fat\": <number in grams>,'' @ [CHR 0x0A]
      @ ''  \"explanation\": \"<detailed explanation of how you calculated these values, including sources>\",'' @ [CHR 0x0A]
      @ ''  \"confidence\": <0-1 number indicating confidence>,'' @ [CHR 0x0A]
      @ ''  \"sources\": [\"<source1>\", \"<source2>\"]'' @ [CHR 0x0A]
      @ ''}'' @ [CHR 0x0A, CHR 0x0A]
      @ ''Be as accurate as possible. If the description is vague, make reasonable assumptions and explain them in the explanation field. Consider standard portion sizes unless specified otherwise.'')"

text \<open>
  The two arguments of \<open>axios.post\<close> after the URL: the body (model, messages,
  \<open>response_format\<close>, temperature, \<open>return_citations\<close>) and the request
  configuration (headers, timeout, and the abort signal, which is the identity of the
  AbortController it belongs to, when one is passed).
\<close>

record HttpRequest =
  url :: jsstring
  body_model :: jsstring
  messages :: "(jsstring \<times> jsstring) list"
  response_format :: "jsstring option"
  temperature :: number
  return_citations :: bool
  headers :: "(jsstring \<times> jsstring) list"
  timeout :: nat
  signal :: "nat option"

definition openRouterRequest :: "jsstring \<Rightarrow> ProviderConfig \<Rightarrow> HttpRequest" where
  "openRouterRequest mealText providerConfig =
     \<lparr>url = baseURL providerConfig @ js ''/chat/completions'',
      body_model = model providerConfig,
      messages =
        [(js ''system'', NUTRITION_PROMPT),
         (js ''user'', js ''Analyze the nutritional content of: \"'' @ mealText @ js ''\"'')],
      response_format = Some (js ''json_object''),
      temperature = to_double 3 10,
      return_citations = False,
      headers =
        [(js ''Authorization'', js ''Bearer '' @ apiKey providerConfig),
         (js ''Content-Type'', js ''application/json''),
         (js ''HTTP-Referer'', js ''https://calorie-tracker-app.com''),
         (js ''X-Title'', js ''Calorie Tracker'')],
      timeout = 30000,
      signal = None\<rparr>"

definition perplexityRequest :: "jsstring \<Rightarrow> ProviderConfig \<Rightarrow> HttpRequest" where
  "perplexityRequest mealText providerConfig =
     \<lparr>url = baseURL providerConfig @ js ''/chat/completions'',
      body_model = model providerConfig,
      messages =
        [(js ''system'', NUTRITION_PROMPT),
         (js ''user'',
          js ''Analyze the nutritional content of: \"'' @ mealText
            @ js ''\". Search for accurate nutrition data from reliable sources.'')],
      response_format = None,
      temperature = to_double 3 10,
      return_citations = True,
      headers =
        [(js ''Authorization'', js ''Bearer '' @ apiKey providerConfig),
         (js ''Content-Type'', js ''application/json'')],
      timeout = 30000,
      signal = None\<rparr>"

section \<open>Responses\<close>

text \<open>
  The parts of \<open>response.data\<close> that the code reads. \<open>choices\<close> is \<open>None\<close>
  when the body has no such property; a choice carries
  \<open>message?.content\<close>, which is \<open>None\<close> when the message or its content is
  missing or \<open>null\<close>. \<open>citations\<close> is the top-level list of Perplexity.
\<close>

datatype choice = Choice (message_content: "jsstring option")

record Envelope =
  choices :: "choice list option"
  citations :: "jsstring list option"

text \<open>How the promise of \<open>axios.post\<close> settles.\<close>

datatype http_outcome = Resolved Envelope | Rejected thrown

type_synonym network = "HttpRequest \<Rightarrow> http_outcome"

text \<open>
  The message of the TypeError of indexing \<open>undefined\<close>; its wording is the
  JavaScript engine's.
\<close>

definition type_error_message :: jsstring where
  "type_error_message = js ''Cannot read properties of undefined''"

text \<open>\<open>response.data.choices[0]?.message?.content\<close>\<close>

definition first_content :: "Envelope \<Rightarrow> thrown + jsstring option" where
  "first_content data =
     (case choices data of
        None \<Rightarrow> Inl (ThrownError type_error_message)
      | Some cs \<Rightarrow> Inr (case cs of [] \<Rightarrow> None | c # _ \<Rightarrow> message_content c))"

definition empty_response :: thrown where
  "empty_response =
     ThrownAPIError (createAPIError (js ''No response from AI'') (js ''EMPTY_RESPONSE'') True)"

text \<open>
  \<open>analyzeWithOpenRouter\<close> after its \<open>await\<close>: what it returns or throws, given
  how the request settled.
\<close>

definition openRouterResult :: "http_outcome \<Rightarrow> thrown + AIAnalysisResult" where
  "openRouterResult outcome =
     (case outcome of
        Rejected t \<Rightarrow> Inl t
      | Resolved data \<Rightarrow>
          (case first_content data of
             Inl t \<Rightarrow> Inl t
           | Inr None \<Rightarrow> Inl empty_response
           | Inr (Some content) \<Rightarrow>
               if content = [] then Inl empty_response else parseAIResponse content))"

text \<open>\<open>!result.sources || result.sources.length === 0\<close>\<close>

definition no_sources :: "json \<Rightarrow> bool" where
  "no_sources v \<longleftrightarrow>
     \<not> truthy v \<or>
     (case v of
        JArray xs \<Rightarrow> xs = []
      | JString s \<Rightarrow> s = []
      | JObject kvs \<Rightarrow> own_property kvs ''length'' = Some (JNumber (Num 0))
      | _ \<Rightarrow> False)"

definition perplexityResult :: "http_outcome \<Rightarrow> thrown + AIAnalysisResult" where
  "perplexityResult outcome =
     (case outcome of
        Rejected t \<Rightarrow> Inl t
      | Resolved data \<Rightarrow>
          (case first_content data of
             Inl t \<Rightarrow> Inl t
           | Inr None \<Rightarrow> Inl empty_response
           | Inr (Some content) \<Rightarrow>
               if content = [] then Inl empty_response
               else
                 (let cites = (case citations data of None \<Rightarrow> [] | Some cs \<Rightarrow> cs)
                  in case parseAIResponse content of
                       Inl t \<Rightarrow> Inl t
                     | Inr result \<Rightarrow>
                         if length cites > 0 \<and> no_sources (sources result)
                         then Inr (result\<lparr>sources := JArray (map JString cites)\<rparr>)
                         else Inr result)))"

section \<open>The analysis\<close>

text \<open>
  The functions take the network as a function from the request to the way it settles,
  and return, with their result, the requests they sent.
\<close>

definition analyzeWithOpenRouter ::
  "network \<Rightarrow> jsstring \<Rightarrow> ProviderConfig \<Rightarrow> (thrown + AIAnalysisResult) \<times> HttpRequest list"
where
  "analyzeWithOpenRouter net mealText providerConfig =
     (let request = openRouterRequest mealText providerConfig
      in (openRouterResult (net request), [request]))"

definition analyzeWithPerplexity ::
  "network \<Rightarrow> jsstring \<Rightarrow> ProviderConfig \<Rightarrow> (thrown + AIAnalysisResult) \<times> HttpRequest list"
where
  "analyzeWithPerplexity net mealText providerConfig =
     (let request = perplexityRequest mealText providerConfig
      in (perplexityResult (net request), [request]))"

text \<open>\<open>!mealText || mealText.trim().length === 0\<close>\<close>

definition is_blank :: "jsstring \<Rightarrow> bool" where
  "is_blank mealText \<longleftrightarrow> mealText = [] \<or> length (js_trim mealText) = 0"

definition empty_input :: APIError where
  "empty_input = createAPIError (js ''Meal text cannot be empty'') (js ''EMPTY_INPUT'') False"

text \<open>
  \<open>Inl\<close> is the rejection of the promise, \<open>Inr\<close> its resolution. The logging of
  debug mode does not change either.
\<close>

definition analyzeNutrition ::
  "EnvConfig \<Rightarrow> network \<Rightarrow> jsstring \<Rightarrow> (APIError + AIAnalysisResult) \<times> HttpRequest list"
where
  "analyzeNutrition cfg net mealText =
     (if is_blank mealText then (Inl empty_input, [])
      else
        (let providerConfig = getCurrentProviderConfig cfg;
             (outcome, sent) =
               (if provider providerConfig = OpenRouter
                then analyzeWithOpenRouter net mealText providerConfig
                else analyzeWithPerplexity net mealText providerConfig)
         in (case outcome of
               Inl error \<Rightarrow> (Inl (handleAPIError error), sent)
             | Inr result \<Rightarrow> (Inr result, sent))))"

text \<open>
  The same function in two halves, for the event loop below: up to the \<open>await\<close> of
  the request (the rejection with EMPTY_INPUT, or the request sent), and from the
  settling of the request on.
\<close>

definition analyzeNutrition_begin :: "EnvConfig \<Rightarrow> jsstring \<Rightarrow> APIError + HttpRequest" where
  "analyzeNutrition_begin cfg mealText =
     (if is_blank mealText then Inl empty_input
      else
        (let providerConfig = getCurrentProviderConfig cfg
         in if provider providerConfig = OpenRouter
            then Inr (openRouterRequest mealText providerConfig)
            else Inr (perplexityRequest mealText providerConfig)))"

definition analyzeNutrition_resume ::
  "EnvConfig \<Rightarrow> http_outcome \<Rightarrow> APIError + AIAnalysisResult"
where
  "analyzeNutrition_resume cfg outcome =
     (case (if provider (getCurrentProviderConfig cfg) = OpenRouter
            then openRouterResult outcome else perplexityResult outcome) of
        Inl error \<Rightarrow> Inl (handleAPIError error)
      | Inr result \<Rightarrow> Inr result)"

section \<open>The debounced analyzer\<close>

text \<open>
  The closure returned by \<open>createDebouncedAnalyzer\<close> and the part of the event loop
  it uses, as a state machine. The calls of one analyzer are numbered from 0; the number
  of a call names the promise it returns and the timer it sets. A timer holds what its
  callback closes over: the call and its \<open>mealText\<close>, and the time at which it is
  due. The state records the two variables of the closure (\<open>timeoutId\<close>,
  \<open>currentController\<close>), the timers that are set, the controllers on which
  \<open>abort\<close> was called, the requests in flight with the call they belong to, every
  request sent, the \<open>mealText\<close> of every invocation of \<open>analyzeNutrition\<close>, and
  the promises that are settled, with their outcome.
\<close>

datatype timer = Timer (timer_call: nat) (due: nat) (timer_text: jsstring)

record Debounced =
  delay :: nat
  timeoutId :: "nat option"
  currentController :: "nat option"
  pending :: "timer list"
  aborted :: "nat list"
  inflight :: "(nat \<times> HttpRequest) list"
  dispatched :: "HttpRequest list"
  invocations :: "jsstring list"
  settled :: "(nat \<times> (APIError + AIAnalysisResult)) list"
  clock :: nat
  calls :: nat
  controllers :: nat

definition createDebouncedAnalyzer :: "nat \<Rightarrow> Debounced" where
  "createDebouncedAnalyzer delayMs =
     \<lparr>delay = delayMs, timeoutId = None, currentController = None, pending = [],
      aborted = [], inflight = [], dispatched = [], invocations = [], settled = [],
      clock = 0, calls = 0, controllers = 0\<rparr>"

text \<open>
  What happens, and when (in milliseconds): a call of the analyzer with a
  \<open>mealText\<close>, the event loop running the callback of a timer, and a request of a
  call settling.
\<close>

datatype event =
    Call nat jsstring
  | Fire nat nat
  | Reply nat nat http_outcome

definition clearTimeout :: "nat option \<Rightarrow> timer list \<Rightarrow> timer list" where
  "clearTimeout h ts = (case h of None \<Rightarrow> ts | Some i \<Rightarrow> filter (\<lambda>t. timer_call t \<noteq> i) ts)"

text \<open>
  A request whose signal belongs to an aborted controller is rejected by axios as
  cancelled; any other request settles as the network has it.
\<close>

definition delivered :: "Debounced \<Rightarrow> HttpRequest \<Rightarrow> http_outcome \<Rightarrow> http_outcome" where
  "delivered s request outcome =
     (case signal request of
        None \<Rightarrow> outcome
      | Some c \<Rightarrow>
          if c \<in> set (aborted s)
          then Rejected (ThrownAxios
                 \<lparr>ae_code = Some (js ''ERR_CANCELED''), ae_response = None,
                  ae_message = js ''canceled''\<rparr>)
          else outcome)"

text \<open>
  One event; \<open>None\<close> when it cannot happen in the state: time does not run backwards,
  a timer runs only while it is set and not before it is due, and only a request in
  flight settles.
\<close>

fun step :: "EnvConfig \<Rightarrow> Debounced \<Rightarrow> event \<Rightarrow> Debounced option" where
  "step cfg s (Call now mealText) =
     (if now < clock s then None
      else Some (s\<lparr>clock := now,
                   pending := clearTimeout (timeoutId s) (pending s)
                               @ [Timer (calls s) (now + delay s) mealText],
                   aborted := (case currentController s of
                                 None \<Rightarrow> aborted s
                               | Some c \<Rightarrow> c # aborted s),
                   timeoutId := Some (calls s),
                   calls := Suc (calls s)\<rparr>))"
| "step cfg s (Fire now i) =
     (case find (\<lambda>t. timer_call t = i) (pending s) of
        None \<Rightarrow> None
      | Some t \<Rightarrow>
          if now < clock s \<or> now < due t then None
          else
            (let s' = s\<lparr>clock := now,
                        pending := filter (\<lambda>t. timer_call t \<noteq> i) (pending s),
                        currentController := Some (controllers s),
                        controllers := Suc (controllers s),
                        invocations := invocations s @ [timer_text t]\<rparr>
             in case analyzeNutrition_begin cfg (timer_text t) of
                  Inl error \<Rightarrow> Some (s'\<lparr>settled := settled s' @ [(i, Inl error)]\<rparr>)
                | Inr request \<Rightarrow>
                    Some (s'\<lparr>dispatched := dispatched s' @ [request],
                             inflight := inflight s' @ [(i, request)]\<rparr>)))"
| "step cfg s (Reply now i outcome) =
     (case map_of (inflight s) i of
        None \<Rightarrow> None
      | Some request \<Rightarrow>
          if now < clock s then None
          else Some (s\<lparr>clock := now,
                       inflight := filter (\<lambda>r. fst r \<noteq> i) (inflight s),
                       settled := settled s
                         @ [(i, analyzeNutrition_resume cfg (delivered s request outcome))]\<rparr>))"

fun run :: "EnvConfig \<Rightarrow> Debounced \<Rightarrow> event list \<Rightarrow> Debounced option" where
  "run cfg s [] = Some s"
| "run cfg s (e # es) = (case step cfg s e of None \<Rightarrow> None | Some s' \<Rightarrow> run cfg s' es)"

text \<open>
  A burst: calls at times that do not decrease, each less than the delay after the one
  before it, so that no timer of the burst is due before the next call.
\<close>

fun burst :: "nat \<Rightarrow> (nat \<times> jsstring) list \<Rightarrow> bool" where
  "burst d [] = True"
| "burst d [c] = True"
| "burst d (c # c' # cs) = (fst c \<le> fst c' \<and> fst c' < fst c + d \<and> burst d (c' # cs))"

definition is_settled :: "Debounced \<Rightarrow> nat \<Rightarrow> bool" where
  "is_settled s i \<longleftrightarrow> i \<in> fst ` set (settled s)"

text \<open>The calls of a burst, as events.\<close>

definition calls_of :: "(nat \<times> jsstring) list \<Rightarrow> event list" where
  "calls_of cs = map (\<lambda>c. Call (fst c) (snd c)) cs"

text \<open>The requests that an invocation of \<open>analyzeNutrition\<close> sends.\<close>

definition sent :: "EnvConfig \<Rightarrow> jsstring \<Rightarrow> HttpRequest list" where
  "sent cfg mealText =
     (case analyzeNutrition_begin cfg mealText of Inl e \<Rightarrow> [] | Inr request \<Rightarrow> [request])"

fun is_call :: "event \<Rightarrow> bool" where
  "is_call (Call now mealText) = True"
| "is_call _ = False"

text \<open>The calls whose request is in flight, each with the signal of its request.\<close>

definition flying :: "Debounced \<Rightarrow> (nat \<times> nat option) list" where
  "flying s = map (\<lambda>r. (fst r, signal (snd r))) (inflight s)"

text \<open>
  Invariants. A call is dead when it was made and nothing refers to its promise any
  more: no timer, no request in flight, no settlement. A state is well formed when the
  only timer that can be set is the one \<open>timeoutId\<close> names and every call that a
  timer, a request or a settlement refers to was made. Relative to a state \<open>s0\<close>
  before a burst, a later state is armed for a call when that call's timer is the only
  one set and nothing was invoked or sent since \<open>s0\<close>, and fired for it when no timer
  is set, the one invocation since \<open>s0\<close> was that call's, and the promise of the call
  is rejected with EMPTY_INPUT if its text is blank.
\<close>

definition dead :: "Debounced \<Rightarrow> nat \<Rightarrow> bool" where
  "dead s i \<longleftrightarrow>
     i < calls s \<and> i \<notin> timer_call ` set (pending s) \<and> i \<notin> fst ` set (inflight s)
     \<and> i \<notin> fst ` set (settled s)"

definition well_formed :: "Debounced \<Rightarrow> bool" where
  "well_formed s \<longleftrightarrow>
     (\<forall>t \<in> set (pending s). timeoutId s = Some (timer_call t))
     \<and> (\<forall>k. timeoutId s = Some k \<longrightarrow> k < calls s)
     \<and> (\<forall>r \<in> set (inflight s). fst r < calls s)
     \<and> (\<forall>r \<in> set (settled s). fst r < calls s)"

definition armed :: "Debounced \<Rightarrow> nat \<Rightarrow> nat \<Rightarrow> jsstring \<Rightarrow> Debounced \<Rightarrow> bool" where
  "armed s0 k t x s \<longleftrightarrow>
     pending s = [Timer k (t + delay s0) x] \<and> timeoutId s = Some k \<and> calls s = Suc k
     \<and> delay s = delay s0 \<and> t \<le> clock s
     \<and> invocations s = invocations s0 \<and> dispatched s = dispatched s0
     \<and> (\<forall>r \<in> set (inflight s). fst r < calls s0)
     \<and> (\<forall>r \<in> set (settled s). fst r < calls s0)"

definition fired :: "EnvConfig \<Rightarrow> Debounced \<Rightarrow> nat \<Rightarrow> nat \<Rightarrow> jsstring \<Rightarrow> Debounced \<Rightarrow> bool" where
  "fired cfg s0 k t x s \<longleftrightarrow>
     pending s = [] \<and> timeoutId s = Some k \<and> calls s = Suc k
     \<and> delay s = delay s0 \<and> t + delay s0 \<le> clock s
     \<and> invocations s = invocations s0 @ [x] \<and> dispatched s = dispatched s0 @ sent cfg x
     \<and> (\<forall>r \<in> set (inflight s). fst r < calls s0 \<or> fst r = k)
     \<and> (\<forall>r \<in> set (settled s). fst r < calls s0 \<or> fst r = k)
     \<and> (is_blank x \<longrightarrow> (k, Inl empty_input) \<in> set (settled s))"

text \<open>No request in flight carries a signal.\<close>

definition unsignalled :: "Debounced \<Rightarrow> bool" where
  "unsignalled s \<longleftrightarrow> (\<forall>r \<in> set (inflight s). signal (snd r) = None)"

section \<open>Basic facts\<close>

lemma unat_of_char: "unat (of_char a :: jschar) = of_char a"
proof -
  have small: "(of_char a :: nat) < 256" by simp
  have "(256 :: nat) < 2 ^ 16" by simp
  with small have lt: "(of_char a :: nat) < 2 ^ 16" by (rule less_trans)
  have "(of_char a :: jschar) = of_nat (of_char a)" by (simp add: of_nat_of_char)
  then have "unat (of_char a :: jschar) = unat (of_nat (of_char a :: nat) :: jschar)" by simp
  also have "\<dots> = of_char a" using lt by (simp add: unat_of_nat take_bit_nat_eq_self)
  finally show ?thesis .
qed

lemma of_char_word_inj: "(of_char a :: jschar) = of_char b \<longleftrightarrow> a = b"
  by (metis unat_of_char of_char_eq_iff)

lemma js_eq_iff: "js a = js b \<longleftrightarrow> a = b"
  unfolding js_def by (simp add: inj_map_eq_map inj_on_def of_char_word_inj)

lemma Math_round_nearest: "\<exists>y. Math_round (Num x) = Num y \<and> nearest_integer x y"
proof -
  have "x - 1 / 2 < of_int \<lfloor>x + 1 / 2\<rfloor>" "of_int \<lfloor>x + 1 / 2\<rfloor> \<le> x + 1 / 2"
    by linarith+
  then show ?thesis by (simp add: Math_round_def nearest_integer_def)
qed

lemma Math_round_infinite:
  "Math_round Infinity = Infinity" "Math_round MinusInfinity = MinusInfinity"
  by (simp_all add: Math_round_def)

lemma Math_round_whole: "integer_or_infinite (Math_round x)"
  by (cases x) (simp_all add: Math_round_def integer_or_infinite_def is_integer_def)

lemma bits_le: "n < 2 ^ j \<Longrightarrow> bits n \<le> j"
proof (induction n arbitrary: j rule: bits.induct)
  case (1 n)
  show ?case
  proof (cases "n = 0")
    case True
    then show ?thesis by (simp add: bits.simps)
  next
    case False
    with 1(2) obtain i where j: "j = Suc i" by (cases j) auto
    with 1(2) have "n div 2 < 2 ^ i" by auto
    from 1(1) [OF False this] False j show ?thesis by (simp add: bits.simps [of n])
  qed
qed

lemma bits_one: "bits (Suc 0) = Suc 0"
  by (simp add: bits.simps)

lemma half_even_one: "half_even a (Suc 0) = a"
  by (simp add: half_even_def)

lemma rounded_nat:
  "\<exists>k. ldexp (half_even (fst (scaled n (Suc 0) p)) (snd (scaled n (Suc 0) p))) p = of_nat k"
proof (cases "0 \<le> p")
  case True
  then have "ldexp (half_even (fst (scaled n (Suc 0) p)) (snd (scaled n (Suc 0) p))) p
      = of_nat (half_even n (2 ^ nat p) * 2 ^ nat p)"
    by (simp add: scaled_def ldexp_def)
  then show ?thesis by blast
next
  case False
  then have "ldexp (half_even (fst (scaled n (Suc 0) p)) (snd (scaled n (Suc 0) p))) p
      = of_nat n"
    by (simp add: scaled_def ldexp_def half_even_one)
  then show ?thesis by blast
qed

lemma rounded_exact:
  "p \<le> 0 \<Longrightarrow>
     ldexp (half_even (fst (scaled n (Suc 0) p)) (snd (scaled n (Suc 0) p))) p = of_nat n"
  by (cases "p = 0") (simp_all add: scaled_def ldexp_def half_even_one)

lemma to_double_integer:
  "to_double n (Suc 0) =
     (if 2 ^ 1024 \<le> n then Infinity
      else if n = 0 then Num 0
      else if 2 ^ 1024
            \<le> ldexp (half_even (fst (scaled n (Suc 0) (max (binade n (Suc 0)) (- 1022) - 52)))
                       (snd (scaled n (Suc 0) (max (binade n (Suc 0)) (- 1022) - 52))))
                  (max (binade n (Suc 0)) (- 1022) - 52)
      then Infinity
      else Num (ldexp (half_even (fst (scaled n (Suc 0) (max (binade n (Suc 0)) (- 1022) - 52)))
                       (snd (scaled n (Suc 0) (max (binade n (Suc 0)) (- 1022) - 52))))
                  (max (binade n (Suc 0)) (- 1022) - 52)))"
proof -
  have "n * 2 ^ 1075 \<le> Suc 0 \<longleftrightarrow> n = 0"
    by (cases n) simp_all
  then show ?thesis
    unfolding to_double_def Let_def case_prod_beta by simp
qed

lemma to_double_whole: "to_double n 1 = Infinity \<or> (\<exists>k. to_double n 1 = Num (of_nat k))"
proof -
  obtain k where
    "ldexp (half_even (fst (scaled n (Suc 0) (max (binade n (Suc 0)) (- 1022) - 52)))
                       (snd (scaled n (Suc 0) (max (binade n (Suc 0)) (- 1022) - 52))))
                  (max (binade n (Suc 0)) (- 1022) - 52) = of_nat k"
    using rounded_nat by blast
  moreover have "Num 0 = Num (of_nat 0)" by simp
  ultimately show ?thesis
    unfolding One_nat_def to_double_integer by metis
qed

lemma to_double_overflow: "2 ^ 1024 \<le> n \<Longrightarrow> to_double n (Suc 0) = Infinity"
  by (simp add: to_double_def)

lemma to_double_underflow:
  assumes "n * 2 ^ 1075 \<le> d" and "0 < d"
  shows "to_double n d = Num 0"
proof -
  have "\<not> d * 2 ^ 1024 \<le> n"
  proof
    assume big: "d * 2 ^ 1024 \<le> n"
    have "n * 1 \<le> n * 2 ^ 1075" by (rule mult_le_mono2) simp
    with assms(1) have "n \<le> d" by simp
    moreover have "d * 2 \<le> d * 2 ^ 1024" by (rule mult_le_mono2) simp
    ultimately have "d * 2 \<le> d" using big by simp
    with assms(2) show False by simp
  qed
  with assms(1) show ?thesis by (simp add: to_double_def)
qed

lemma binade_one: "n < 2 ^ 53 \<Longrightarrow> binade n (Suc 0) \<le> 52"
  using bits_le [of n 53] by (simp add: binade_def Let_def bits_one case_prod_beta)

lemma to_double_exact: "n < 2 ^ 53 \<Longrightarrow> to_double n 1 = Num (of_nat n)"
proof -
  assume n: "n < 2 ^ 53"
  from binade_one [OF n] have p: "max (binade n (Suc 0)) (- 1022) - 52 \<le> 0" by simp
  have "(2 :: nat) ^ 53 < 2 ^ 1024" by simp
  with n have small: "n < 2 ^ 1024" by (rule less_trans)
  then have "real n < real (2 ^ 1024)" by (simp only: of_nat_less_iff)
  then have big: "\<not> (2 :: real) ^ 1024 \<le> real n" by simp
  from small have s: "\<not> 2 ^ 1024 \<le> n" by simp
  show ?thesis
    unfolding One_nat_def to_double_integer rounded_exact [OF p]
    using s big by simp
qed

lemma to_double_exact_Suc: "n < 2 ^ 53 \<Longrightarrow> to_double n (Suc 0) = Num (of_nat n)"
  using to_double_exact [of n] by simp

lemma to_double_exact_numeral:
  "numeral k < (2 :: nat) ^ 53 \<Longrightarrow> to_double (numeral k) (Suc 0) = Num (numeral k)"
  "to_double (Suc 0) (Suc 0) = Num 1"
  using to_double_exact_Suc [of "numeral k"] to_double_exact_Suc [of "Suc 0"] by simp_all

lemma parseInt_whole: "natural_or_Infinity (parseInt ds)"
  using to_double_whole [of "digits_val ds"]
  by (auto simp: parseInt_def natural_or_Infinity_def is_integer_def is_negative_def)

lemma parseInt_exact:
  "digits_val ds < 2 ^ 53 \<Longrightarrow> parseInt ds = Num (of_nat (digits_val ds))"
  by (simp add: parseInt_def to_double_exact_Suc)

lemma js_trim_empty: "js_trim s = [] \<longleftrightarrow> list_all is_js_whitespace s"
proof
  assume "js_trim s = []"
  then have "dropWhile is_js_whitespace (rev (dropWhile is_js_whitespace s)) = []"
    by (simp add: js_trim_def)
  then have all: "\<forall>x \<in> set (dropWhile is_js_whitespace s). is_js_whitespace x"
    by (simp add: dropWhile_eq_Nil_conv)
  have "dropWhile is_js_whitespace s = []"
  proof (rule ccontr)
    assume ne: "dropWhile is_js_whitespace s \<noteq> []"
    then have "\<not> is_js_whitespace (hd (dropWhile is_js_whitespace s))"
      by (rule hd_dropWhile)
    moreover from ne have "hd (dropWhile is_js_whitespace s) \<in> set (dropWhile is_js_whitespace s)"
      by simp
    ultimately show False using all by blast
  qed
  then show "list_all is_js_whitespace s"
    by (simp add: dropWhile_eq_Nil_conv list_all_iff)
next
  assume "list_all is_js_whitespace s"
  then have "dropWhile is_js_whitespace s = []"
    by (simp add: dropWhile_eq_Nil_conv list_all_iff)
  then show "js_trim s = []" by (auto simp: js_trim_def dest: set_dropWhileD)
qed

lemma is_blank_iff: "is_blank s \<longleftrightarrow> list_all is_js_whitespace s"
  unfolding is_blank_def using js_trim_empty [of s] by (cases s) auto

section \<open>Error classification\<close>

lemma handleAPIError_kind: "code (handleAPIError t) \<in> set error_kinds"
  by (simp add: handleAPIError_def createAPIError_def error_kinds_def
      split: thrown.split option.split)

text \<open>
  C6. Error classification is a total function into the error kinds. An axios error
  whose code is ECONNABORTED or ETIMEDOUT is TIMEOUT (retryable); otherwise one without
  a response is NETWORK_ERROR (retryable); otherwise status 401 is AUTH_ERROR (not
  retryable), status 429 is RATE_LIMIT (retryable), a status of 500 or more is
  SERVER_ERROR (retryable) and any other status is API_ERROR (retryable). Every value
  that is not an axios error is UNKNOWN_ERROR (not retryable). The rows are tried in
  the order of the specification's table, timeout first.
\<close>

theorem handleAPIError_classification:
  "code (handleAPIError t) \<in> set error_kinds
   \<and> (timed_out e \<longrightarrow>
        code (handleAPIError (ThrownAxios e)) = js ''TIMEOUT''
        \<and> retryable (handleAPIError (ThrownAxios e)))
   \<and> (\<not> timed_out e \<and> ae_response e = None \<longrightarrow>
        code (handleAPIError (ThrownAxios e)) = js ''NETWORK_ERROR''
        \<and> retryable (handleAPIError (ThrownAxios e)))
   \<and> (\<not> timed_out e \<and> ae_response e = Some 401 \<longrightarrow>
        code (handleAPIError (ThrownAxios e)) = js ''AUTH_ERROR''
        \<and> \<not> retryable (handleAPIError (ThrownAxios e)))
   \<and> (\<not> timed_out e \<and> ae_response e = Some 429 \<longrightarrow>
        code (handleAPIError (ThrownAxios e)) = js ''RATE_LIMIT''
        \<and> retryable (handleAPIError (ThrownAxios e)))
   \<and> (\<not> timed_out e \<and> ae_response e = Some status \<and> status \<ge> 500 \<longrightarrow>
        code (handleAPIError (ThrownAxios e)) = js ''SERVER_ERROR''
        \<and> retryable (handleAPIError (ThrownAxios e)))
   \<and> (\<not> timed_out e \<and> ae_response e = Some status
        \<and> status \<noteq> 401 \<and> status \<noteq> 429 \<and> status < 500 \<longrightarrow>
        code (handleAPIError (ThrownAxios e)) = js ''API_ERROR''
        \<and> retryable (handleAPIError (ThrownAxios e)))
   \<and> ((\<forall>a. t \<noteq> ThrownAxios a) \<longrightarrow>
        code (handleAPIError t) = js ''UNKNOWN_ERROR''
        \<and> \<not> retryable (handleAPIError t))"
proof -
  have kinds: "code (handleAPIError t) \<in> set error_kinds"
    by (rule handleAPIError_kind)
  have axios: "timed_out e \<longrightarrow>
        code (handleAPIError (ThrownAxios e)) = js ''TIMEOUT''
        \<and> retryable (handleAPIError (ThrownAxios e))"
    "\<not> timed_out e \<and> ae_response e = None \<longrightarrow>
        code (handleAPIError (ThrownAxios e)) = js ''NETWORK_ERROR''
        \<and> retryable (handleAPIError (ThrownAxios e))"
    "\<not> timed_out e \<and> ae_response e = Some 401 \<longrightarrow>
        code (handleAPIError (ThrownAxios e)) = js ''AUTH_ERROR''
        \<and> \<not> retryable (handleAPIError (ThrownAxios e))"
    "\<not> timed_out e \<and> ae_response e = Some 429 \<longrightarrow>
        code (handleAPIError (ThrownAxios e)) = js ''RATE_LIMIT''
        \<and> retryable (handleAPIError (ThrownAxios e))"
    "\<not> timed_out e \<and> ae_response e = Some status \<and> status \<ge> 500 \<longrightarrow>
        code (handleAPIError (ThrownAxios e)) = js ''SERVER_ERROR''
        \<and> retryable (handleAPIError (ThrownAxios e))"
    "\<not> timed_out e \<and> ae_response e = Some status
        \<and> status \<noteq> 401 \<and> status \<noteq> 429 \<and> status < 500 \<longrightarrow>
        code (handleAPIError (ThrownAxios e)) = js ''API_ERROR''
        \<and> retryable (handleAPIError (ThrownAxios e))"
    by (simp_all add: handleAPIError_def createAPIError_def timed_out_def)
  have other: "(\<forall>a. t \<noteq> ThrownAxios a) \<longrightarrow>
        code (handleAPIError t) = js ''UNKNOWN_ERROR''
        \<and> \<not> retryable (handleAPIError t)"
    by (cases t) (simp_all add: handleAPIError_def createAPIError_def)
  from kinds axios other show ?thesis by blast
qed

theorem handleAPIError_classification_witness:
  "code (handleAPIError (ThrownAxios
      \<lparr>ae_code = Some (js ''ECONNABORTED''), ae_response = None, ae_message = []\<rparr>))
     = js ''TIMEOUT''
   \<and> code (handleAPIError (ThrownAxios
      \<lparr>ae_code = Some (js ''ERR_NETWORK''), ae_response = None, ae_message = []\<rparr>))
     = js ''NETWORK_ERROR''
   \<and> handleAPIError (ThrownAxios
      \<lparr>ae_code = Some (js ''ERR_BAD_REQUEST''), ae_response = Some 401, ae_message = []\<rparr>)
     = \<lparr>message = js ''Invalid API key. Please check your configuration.'',
        code = js ''AUTH_ERROR'', retryable = False\<rparr>
   \<and> handleAPIError (ThrownAxios
      \<lparr>ae_code = Some (js ''ERR_BAD_REQUEST''), ae_response = Some 429, ae_message = []\<rparr>)
     = \<lparr>message = js ''Rate limit exceeded. Please wait a moment.'',
        code = js ''RATE_LIMIT'', retryable = True\<rparr>
   \<and> code (handleAPIError (ThrownAxios
      \<lparr>ae_code = Some (js ''ERR_BAD_RESPONSE''), ae_response = Some 503, ae_message = []\<rparr>))
     = js ''SERVER_ERROR''
   \<and> code (handleAPIError (ThrownAxios
      \<lparr>ae_code = Some (js ''ERR_BAD_REQUEST''), ae_response = Some 404, ae_message = []\<rparr>))
     = js ''API_ERROR''
   \<and> code (handleAPIError (ThrownError (js ''boom''))) = js ''UNKNOWN_ERROR''
   \<and> \<not> retryable (handleAPIError (ThrownError (js ''boom'')))"
  using
    handleAPIError_classification [of OtherValue
      "\<lparr>ae_code = Some (js ''ECONNABORTED''), ae_response = None, ae_message = []\<rparr>" 500]
    handleAPIError_classification [of OtherValue
      "\<lparr>ae_code = Some (js ''ERR_NETWORK''), ae_response = None, ae_message = []\<rparr>" 500]
    handleAPIError_classification [of OtherValue
      "\<lparr>ae_code = Some (js ''ERR_BAD_REQUEST''), ae_response = Some 401, ae_message = []\<rparr>" 401]
    handleAPIError_classification [of OtherValue
      "\<lparr>ae_code = Some (js ''ERR_BAD_REQUEST''), ae_response = Some 429, ae_message = []\<rparr>" 429]
    handleAPIError_classification [of OtherValue
      "\<lparr>ae_code = Some (js ''ERR_BAD_RESPONSE''), ae_response = Some 503, ae_message = []\<rparr>" 503]
    handleAPIError_classification [of "ThrownError (js ''boom'')"
      "\<lparr>ae_code = Some (js ''ERR_BAD_REQUEST''), ae_response = Some 404, ae_message = []\<rparr>" 404]
  by (simp add: timed_out_def js_eq_iff handleAPIError_def createAPIError_def)

section \<open>Evaluations at the inputs of the specification\<close>

lemmas double_eval =
  to_double_def binade_def scaled_def half_even_def ldexp_def bits.simps Let_def

lemmas lexer_eval =
  js_def JSON_parse_def is_digit_def number_char_def parse_number_def parse_exponent_def
  decimal_def digits_val_def digit_val_def starts_with_def hex_val_def unescape_def
  to_double_exact_numeral

lemmas regex_eval =
  js_def match_here_def calorie_tail_def macro_tail_def is_digit_def is_js_whitespace_def

lemma to_double_literals:
  "to_double 6 10 = Num (5404319552844595 / 9007199254740992)"
  "to_double 8 10 = Num (3602879701896397 / 4503599627370496)"
  "to_double 9 10 = Num (8106479329266893 / 9007199254740992)"
  by (simp_all add: double_eval)

lemma Math_round_example:
  "Math_round (to_double 4526 10) = Num 453" "Math_round (to_double 231 10) = Num 23"
  "Math_round (Num 33) = Num 33" "Math_round (Num 25) = Num 25"
  "Math_round (Num 1) = Num 1" "Math_round (Num (- 5)) = Num (- 5)"
  by (simp_all add: double_eval Math_round_def)

lemma truthy_literals:
  "truthy (JNumber (to_double 9 10))" "truthy (JNumber (Num 7))"
  by (simp_all add: truthy_def to_double_literals)

lemma JSON_parse_example:
  "JSON_parse (js ''{\"calories\":452.6,\"protein\":23.1,\"carbs\":33,\"fat\":25,\"confidence\":0.9,\"sources\":[\"USDA\"]}'')
   = Some (JObject
       [(js ''calories'', JNumber (to_double 4526 10)),
        (js ''protein'', JNumber (to_double 231 10)),
        (js ''carbs'', JNumber (Num 33)), (js ''fat'', JNumber (Num 25)),
        (js ''confidence'', JNumber (to_double 9 10)),
        (js ''sources'', JArray [JString (js ''USDA'')])])"
  by (simp add: lexer_eval)

lemma decode_strict_example:
  "decode_strict (js ''{\"calories\":452.6,\"protein\":23.1,\"carbs\":33,\"fat\":25,\"confidence\":0.9,\"sources\":[\"USDA\"]}'')
   = Some \<lparr>calories = Num 453, protein = Num 23, carbs = Num 33, fat = Num 25,
       explanation = JString (js ''No explanation provided''),
       confidence = JNumber (to_double 9 10), sources = JArray [JString (js ''USDA'')]\<rparr>"
  unfolding decode_strict_def JSON_parse_example
  by (simp add: number_property_def property_def own_property_def or_default_def
      truthy_def to_double_literals Math_round_example js_eq_iff)

lemma JSON_parse_negative:
  "JSON_parse (js ''{\"calories\":-5,\"protein\":1,\"carbs\":1,\"fat\":1,\"confidence\":7}'')
   = Some (JObject
       [(js ''calories'', JNumber (Num (- 5))), (js ''protein'', JNumber (Num 1)),
        (js ''carbs'', JNumber (Num 1)), (js ''fat'', JNumber (Num 1)),
        (js ''confidence'', JNumber (Num 7))])"
  by (simp add: lexer_eval)

lemma decode_strict_negative:
  "decode_strict (js ''{\"calories\":-5,\"protein\":1,\"carbs\":1,\"fat\":1,\"confidence\":7}'')
   = Some \<lparr>calories = Num (- 5), protein = Num 1, carbs = Num 1, fat = Num 1,
       explanation = JString (js ''No explanation provided''),
       confidence = JNumber (Num 7), sources = JArray []\<rparr>"
  unfolding decode_strict_def JSON_parse_negative
  by (simp add: number_property_def property_def own_property_def or_default_def
      truthy_def Math_round_example js_eq_iff)

lemma JSON_parse_overflow:
  "JSON_parse (js ''{\"calories\":1e400,\"protein\":1,\"carbs\":1,\"fat\":1,\"confidence\":1e-400}'')
   = Some (JObject
       [(js ''calories'', JNumber Infinity), (js ''protein'', JNumber (Num 1)),
        (js ''carbs'', JNumber (Num 1)), (js ''fat'', JNumber (Num 1)),
        (js ''confidence'', JNumber (Num 0))])"
  by (simp add: lexer_eval to_double_overflow to_double_underflow)

lemma decode_strict_overflow:
  "decode_strict (js ''{\"calories\":1e400,\"protein\":1,\"carbs\":1,\"fat\":1,\"confidence\":1e-400}'')
   = Some \<lparr>calories = Infinity, protein = Num 1, carbs = Num 1, fat = Num 1,
       explanation = JString (js ''No explanation provided''),
       confidence = JNumber (to_double 8 10), sources = JArray []\<rparr>"
  unfolding decode_strict_def JSON_parse_overflow
  by (simp add: number_property_def property_def own_property_def or_default_def
      truthy_def Math_round_example Math_round_infinite js_eq_iff)

lemma JSON_parse_prose:
  "JSON_parse (js ''This meal has about 450 kcal and 20g protein'') = None"
  "JSON_parse (js ''I cannot determine this.'') = None"
  by (simp_all add: lexer_eval)

lemma js_match_example:
  "js_match (Plus Digit) calorie_tail (js ''This meal has about 450 kcal and 20g protein'')
   = Some (js ''450'')"
  "js_match (Plus Digit) (macro_tail ''protein'')
     (js ''This meal has about 450 kcal and 20g protein'') = Some (js ''20'')"
  "js_match (Plus Digit) (macro_tail ''carb'')
     (js ''This meal has about 450 kcal and 20g protein'') = None"
  "js_match (Plus Digit) (macro_tail ''fat'')
     (js ''This meal has about 450 kcal and 20g protein'') = None"
  by (simp_all add: regex_eval)

lemma js_match_undetermined:
  "js_match (Plus Digit) calorie_tail (js ''I cannot determine this.'') = None"
  by (simp add: regex_eval)

lemma take_js: "take n (js s) = js (take n s)"
  by (simp add: js_def take_map)

lemma parseInt_example: "parseInt (js ''450'') = Num 450" "parseInt (js ''20'') = Num 20"
  by (simp_all add: parseInt_def digits_val_def digit_val_def js_def to_double_exact_numeral)

lemma parseAIResponse_prose:
  "parseAIResponse (js ''This meal has about 450 kcal and 20g protein'')
   = Inr \<lparr>calories = Num 450, protein = Num 20, carbs = Num 30, fat = Num 10,
       explanation = JString (js ''This meal has about 450 kcal and 20g protein''),
       confidence = JNumber (to_double 6 10), sources = JArray []\<rparr>"
  unfolding parseAIResponse_def decode_strict_def JSON_parse_prose extractNutritionFromText_def
    js_match_example
  by (simp add: parseInt_example take_js)

lemma parseAIResponse_undetermined:
  "parseAIResponse (js ''I cannot determine this.'')
   = Inl (ThrownAPIError
       \<lparr>message = js ''Could not extract calorie information from AI response'',
        code = js ''PARSE_ERROR'', retryable = False\<rparr>)"
  unfolding parseAIResponse_def decode_strict_def JSON_parse_prose extractNutritionFromText_def
    js_match_undetermined
  by (simp add: createAPIError_def)

lemma parseAIResponse_example:
  "parseAIResponse (js ''{\"calories\":452.6,\"protein\":23.1,\"carbs\":33,\"fat\":25,\"confidence\":0.9,\"sources\":[\"USDA\"]}'')
   = Inr \<lparr>calories = Num 453, protein = Num 23, carbs = Num 33, fat = Num 25,
       explanation = JString (js ''No explanation provided''),
       confidence = JNumber (to_double 9 10), sources = JArray [JString (js ''USDA'')]\<rparr>"
  by (simp add: parseAIResponse_def decode_strict_example)

lemma parseAIResponse_negative:
  "parseAIResponse (js ''{\"calories\":-5,\"protein\":1,\"carbs\":1,\"fat\":1,\"confidence\":7}'')
   = Inr \<lparr>calories = Num (- 5), protein = Num 1, carbs = Num 1, fat = Num 1,
       explanation = JString (js ''No explanation provided''),
       confidence = JNumber (Num 7), sources = JArray []\<rparr>"
  by (simp add: parseAIResponse_def decode_strict_negative)

lemma parseAIResponse_overflow:
  "parseAIResponse (js ''{\"calories\":1e400,\"protein\":1,\"carbs\":1,\"fat\":1,\"confidence\":1e-400}'')
   = Inr \<lparr>calories = Infinity, protein = Num 1, carbs = Num 1, fat = Num 1,
       explanation = JString (js ''No explanation provided''),
       confidence = JNumber (to_double 8 10), sources = JArray []\<rparr>"
  by (simp add: parseAIResponse_def decode_strict_overflow)

section \<open>The analysis: outcomes\<close>

lemma js_empty_iff: "js s = [] \<longleftrightarrow> s = []"
  by (simp add: js_def)

lemma not_blank_apple: "\<not> is_blank (js ''apple'')"
  by (simp add: is_blank_iff js_def is_js_whitespace_def)

lemma provider_static: "provider (getCurrentProviderConfig (config k1 k2)) = OpenRouter"
  by (simp add: getCurrentProviderConfig_def config_def)

lemma handleAPIError_plain:
  "handleAPIError (ThrownAPIError e)
   = \<lparr>message = js ''An unexpected error occurred'', code = js ''UNKNOWN_ERROR'',
      retryable = False\<rparr>"
  by (simp add: handleAPIError_def createAPIError_def)

lemma analyzeNutrition_halves:
  "analyzeNutrition cfg net mealText =
     (case analyzeNutrition_begin cfg mealText of
        Inl e \<Rightarrow> (Inl e, [])
      | Inr request \<Rightarrow> (analyzeNutrition_resume cfg (net request), [request]))"
  by (simp add: analyzeNutrition_def analyzeNutrition_begin_def analyzeNutrition_resume_def
      analyzeWithOpenRouter_def analyzeWithPerplexity_def Let_def split: sum.split)

lemma parseAIResponse_kinds:
  "parseAIResponse content = Inr r \<Longrightarrow>
     integer_or_infinite (calories r) \<and> integer_or_infinite (protein r)
     \<and> integer_or_infinite (carbs r) \<and> integer_or_infinite (fat r)"
proof (cases "decode_strict content")
  case None
  have n: "integer_or_infinite (Num 20)" "integer_or_infinite (Num 30)"
    "integer_or_infinite (Num 10)"
    by (simp_all add: integer_or_infinite_def is_integer_def)
  have p: "integer_or_infinite (parseInt g)" for g
    using parseInt_whole [of g] by (auto simp: natural_or_Infinity_def integer_or_infinite_def)
  assume "parseAIResponse content = Inr r"
  with None have "extractNutritionFromText content = Inr r" by (simp add: parseAIResponse_def)
  then show ?thesis
    by (auto simp: extractNutritionFromText_def Let_def n p split: option.splits)
next
  case (Some r')
  assume "parseAIResponse content = Inr r"
  with Some have "decode_strict content = Some r" by (simp add: parseAIResponse_def)
  then show ?thesis
    by (auto simp: decode_strict_def Math_round_whole split: option.splits if_splits)
qed

lemma openRouterResult_ints:
  "openRouterResult outcome = Inr r \<Longrightarrow>
     integer_or_infinite (calories r) \<and> integer_or_infinite (protein r)
     \<and> integer_or_infinite (carbs r) \<and> integer_or_infinite (fat r)"
  by (auto simp: openRouterResult_def split: http_outcome.splits sum.splits option.splits
      if_splits dest: parseAIResponse_kinds)

lemma perplexityResult_ints:
  "perplexityResult outcome = Inr r \<Longrightarrow>
     integer_or_infinite (calories r) \<and> integer_or_infinite (protein r)
     \<and> integer_or_infinite (carbs r) \<and> integer_or_infinite (fat r)"
  by (auto simp: perplexityResult_def Let_def split: http_outcome.splits sum.splits
      option.splits if_splits dest: parseAIResponse_kinds)

lemma analyzeNutrition_resume_outcome:
  "(case analyzeNutrition_resume cfg outcome of
      Inl e \<Rightarrow> code e \<in> set error_kinds
    | Inr r \<Rightarrow> integer_or_infinite (calories r) \<and> integer_or_infinite (protein r)
     \<and> integer_or_infinite (carbs r) \<and> integer_or_infinite (fat r))"
  using openRouterResult_ints [of outcome] perplexityResult_ints [of outcome]
  by (auto simp: analyzeNutrition_resume_def handleAPIError_kind split: sum.splits)

text \<open>
  C1, as amended. For a \<open>mealText\<close> that is not blank, \<open>analyzeNutrition\<close> either
  resolves to a result each of whose four macro fields is an integer or an infinity, or
  rejects with an error whose code is one of the ten kinds. The integers need not be
  non-negative and the confidence need not lie in [0,1]: on the JSON path both are what
  the response text carried (see the counterexample), and a number too large for a
  double is \<open>Infinity\<close> on either path.
\<close>

theorem analyzeNutrition_outcome:
  "\<not> is_blank mealText \<Longrightarrow>
     (case fst (analyzeNutrition cfg net mealText) of
        Inl e \<Rightarrow> code e \<in> set error_kinds
      | Inr r \<Rightarrow> integer_or_infinite (calories r) \<and> integer_or_infinite (protein r)
     \<and> integer_or_infinite (carbs r) \<and> integer_or_infinite (fat r))"
proof -
  assume nb: "\<not> is_blank mealText"
  then obtain request where b: "analyzeNutrition_begin cfg mealText = Inr request"
    by (cases "provider (getCurrentProviderConfig cfg) = OpenRouter")
       (auto simp: analyzeNutrition_begin_def Let_def)
  then have "fst (analyzeNutrition cfg net mealText) = analyzeNutrition_resume cfg (net request)"
    by (simp add: analyzeNutrition_halves)
  then show ?thesis
    using analyzeNutrition_resume_outcome [of cfg "net request"] by simp
qed

text \<open>
  The theorem at a response in prose, which the regular expressions decode, and at one
  in JSON whose calories overflow.
\<close>

theorem analyzeNutrition_outcome_witness:
  "\<not> is_blank (js ''apple'')
   \<and> fst (analyzeNutrition (config None None)
        (\<lambda>request. Resolved
           \<lparr>choices = Some [Choice (Some (js ''This meal has about 450 kcal and 20g protein''))],
            citations = None\<rparr>)
        (js ''apple''))
     = Inr \<lparr>calories = Num 450, protein = Num 20, carbs = Num 30, fat = Num 10,
         explanation = JString (js ''This meal has about 450 kcal and 20g protein''),
         confidence = JNumber (to_double 6 10), sources = JArray []\<rparr>
   \<and> integer_or_infinite (Num 450) \<and> integer_or_infinite (Num 20)
   \<and> integer_or_infinite (Num 30) \<and> integer_or_infinite (Num 10)
   \<and> fst (analyzeNutrition (config None None)
        (\<lambda>request. Resolved
           \<lparr>choices = Some [Choice (Some
              (js ''{\"calories\":1e400,\"protein\":1,\"carbs\":1,\"fat\":1,\"confidence\":1e-400}''))],
            citations = None\<rparr>)
        (js ''apple''))
     = Inr \<lparr>calories = Infinity, protein = Num 1, carbs = Num 1, fat = Num 1,
         explanation = JString (js ''No explanation provided''),
         confidence = JNumber (to_double 8 10), sources = JArray []\<rparr>
   \<and> integer_or_infinite Infinity \<and> integer_or_infinite (Num 1)"
  using analyzeNutrition_outcome [OF not_blank_apple, of "config None None"
      "\<lambda>request. Resolved
           \<lparr>choices = Some [Choice (Some (js ''This meal has about 450 kcal and 20g protein''))],
            citations = None\<rparr>"]
    analyzeNutrition_outcome [OF not_blank_apple, of "config None None"
      "\<lambda>request. Resolved
           \<lparr>choices = Some [Choice (Some
              (js ''{\"calories\":1e400,\"protein\":1,\"carbs\":1,\"fat\":1,\"confidence\":1e-400}''))],
            citations = None\<rparr>"]
  by (simp add: not_blank_apple analyzeNutrition_def provider_static analyzeWithOpenRouter_def
      openRouterResult_def first_content_def parseAIResponse_prose parseAIResponse_overflow
      js_eq_iff js_empty_iff)

text \<open>
  C1 as stated fails: a response that is strict JSON with negative calories and
  confidence 7 resolves to a result with calories -5 and confidence 7.
\<close>

theorem analyzeNutrition_negative_counterexample:
  "\<not> is_blank (js ''apple'')
   \<and> fst (analyzeNutrition (config None None)
        (\<lambda>request. Resolved
           \<lparr>choices = Some [Choice (Some
              (js ''{\"calories\":-5,\"protein\":1,\"carbs\":1,\"fat\":1,\"confidence\":7}''))],
            citations = None\<rparr>)
        (js ''apple''))
     = Inr \<lparr>calories = Num (- 5), protein = Num 1, carbs = Num 1, fat = Num 1,
         explanation = JString (js ''No explanation provided''),
         confidence = JNumber (Num 7), sources = JArray []\<rparr>"
  by (simp add: not_blank_apple analyzeNutrition_def provider_static analyzeWithOpenRouter_def
      openRouterResult_def first_content_def parseAIResponse_negative
      js_eq_iff js_empty_iff)

text \<open>
  C3. A \<open>mealText\<close> that is empty or consists of white space only is rejected with
  code EMPTY_INPUT, not retryable, and no request is sent: the list of requests is
  empty, and the first half of the function ends in the rejection, before any request.
\<close>

theorem analyzeNutrition_blank_input:
  "list_all is_js_whitespace mealText \<Longrightarrow>
     analyzeNutrition cfg net mealText
       = (Inl \<lparr>message = js ''Meal text cannot be empty'', code = js ''EMPTY_INPUT'',
               retryable = False\<rparr>, [])
     \<and> analyzeNutrition_begin cfg mealText
       = Inl \<lparr>message = js ''Meal text cannot be empty'', code = js ''EMPTY_INPUT'',
              retryable = False\<rparr>"
  by (simp add: is_blank_iff [symmetric] analyzeNutrition_def analyzeNutrition_begin_def
      empty_input_def createAPIError_def)

theorem analyzeNutrition_blank_input_witness:
  "list_all is_js_whitespace [0x20, 0x09, 0x0A, 0x3000]
   \<and> analyzeNutrition (config None None) (\<lambda>request. Rejected OtherValue)
       [0x20, 0x09, 0x0A, 0x3000]
     = (Inl \<lparr>message = js ''Meal text cannot be empty'', code = js ''EMPTY_INPUT'',
             retryable = False\<rparr>, [])
   \<and> list_all is_js_whitespace []
   \<and> snd (analyzeNutrition (config None None) (\<lambda>request. Rejected OtherValue) []) = []"
proof -
  have ws: "list_all is_js_whitespace [0x20, 0x09, 0x0A, 0x3000]"
    by (simp add: is_js_whitespace_def)
  have e: "list_all is_js_whitespace []" by simp
  from analyzeNutrition_blank_input [OF ws, of "config None None" "\<lambda>request. Rejected OtherValue"]
    analyzeNutrition_blank_input [OF e, of "config None None" "\<lambda>request. Rejected OtherValue"]
    ws
  show ?thesis by simp
qed

text \<open>
  C2, which the code does not meet. When the provider answers every request with an
  envelope whose first content is missing or empty, or is a text that is not strict
  JSON with the four numbers and has no calorie figure, \<open>analyzeNutrition\<close> rejects
  with code UNKNOWN_ERROR, not retryable. The errors EMPTY_RESPONSE (retryable) and
  PARSE_ERROR are thrown inside the \<open>try\<close> block as plain objects, and
  \<open>handleAPIError\<close> in its \<open>catch\<close> clause maps every plain object to
  UNKNOWN_ERROR.
\<close>

theorem analyzeNutrition_masks_APIError:
  assumes "\<not> is_blank mealText"
    and "\<forall>request. net request = Resolved data"
    and "first_content data = Inr c"
  shows "(c = None \<or> c = Some [] \<longrightarrow>
            fst (analyzeNutrition cfg net mealText)
              = Inl \<lparr>message = js ''An unexpected error occurred'',
                     code = js ''UNKNOWN_ERROR'', retryable = False\<rparr>)
       \<and> (\<forall>content. c = Some content \<and> content \<noteq> [] \<and> decode_strict content = None
              \<and> js_match (Plus Digit) calorie_tail content = None \<longrightarrow>
            fst (analyzeNutrition cfg net mealText)
              = Inl \<lparr>message = js ''An unexpected error occurred'',
                     code = js ''UNKNOWN_ERROR'', retryable = False\<rparr>)"
proof -
  from assms(1) obtain request where b: "analyzeNutrition_begin cfg mealText = Inr request"
    by (cases "provider (getCurrentProviderConfig cfg) = OpenRouter")
       (auto simp: analyzeNutrition_begin_def Let_def)
  with assms(2) have f: "fst (analyzeNutrition cfg net mealText)
      = analyzeNutrition_resume cfg (Resolved data)"
    by (simp add: analyzeNutrition_halves)
  have empty: "c = None \<or> c = Some [] \<Longrightarrow>
      openRouterResult (Resolved data) = Inl empty_response
      \<and> perplexityResult (Resolved data) = Inl empty_response"
    using assms(3) by (auto simp: openRouterResult_def perplexityResult_def)
  have nocal: "parseAIResponse content
        = Inl (ThrownAPIError (createAPIError
            (js ''Could not extract calorie information from AI response'')
            (js ''PARSE_ERROR'') False))"
    if "decode_strict content = None" "js_match (Plus Digit) calorie_tail content = None"
    for content
    using that by (simp add: parseAIResponse_def extractNutritionFromText_def)
  have parse: "openRouterResult (Resolved data)
        = Inl (ThrownAPIError (createAPIError
            (js ''Could not extract calorie information from AI response'')
            (js ''PARSE_ERROR'') False))
      \<and> perplexityResult (Resolved data)
        = Inl (ThrownAPIError (createAPIError
            (js ''Could not extract calorie information from AI response'')
            (js ''PARSE_ERROR'') False))"
    if "c = Some content" "content \<noteq> []" "decode_strict content = None"
      "js_match (Plus Digit) calorie_tail content = None"
    for content
    using that assms(3) nocal [of content]
    by (simp add: openRouterResult_def perplexityResult_def)
  show ?thesis
    using empty parse
    by (auto simp: f analyzeNutrition_resume_def empty_response_def handleAPIError_plain)
qed

text \<open>
  The two inputs of the claim: the text \<open>I cannot determine this.\<close> and an empty
  content, with the errors that are thrown inside and then replaced.
\<close>

theorem analyzeNutrition_masks_APIError_witness:
  "fst (analyzeNutrition (config None None)
        (\<lambda>request. Resolved
           \<lparr>choices = Some [Choice (Some (js ''I cannot determine this.''))],
            citations = None\<rparr>)
        (js ''apple''))
     = Inl \<lparr>message = js ''An unexpected error occurred'', code = js ''UNKNOWN_ERROR'',
            retryable = False\<rparr>
   \<and> fst (analyzeNutrition (config None None)
        (\<lambda>request. Resolved \<lparr>choices = Some [Choice (Some [])], citations = None\<rparr>)
        (js ''apple''))
     = Inl \<lparr>message = js ''An unexpected error occurred'', code = js ''UNKNOWN_ERROR'',
            retryable = False\<rparr>
   \<and> parseAIResponse (js ''I cannot determine this.'')
     = Inl (ThrownAPIError
         \<lparr>message = js ''Could not extract calorie information from AI response'',
          code = js ''PARSE_ERROR'', retryable = False\<rparr>)
   \<and> empty_response
     = ThrownAPIError
         \<lparr>message = js ''No response from AI'', code = js ''EMPTY_RESPONSE'',
          retryable = True\<rparr>"
proof -
  have d: "decode_strict (js ''I cannot determine this.'') = None"
    by (simp add: decode_strict_def JSON_parse_prose)
  have ne: "js ''I cannot determine this.'' \<noteq> []"
    by (simp add: js_empty_iff)
  from analyzeNutrition_masks_APIError [OF not_blank_apple, of
      "\<lambda>request. Resolved
           \<lparr>choices = Some [Choice (Some (js ''I cannot determine this.''))],
            citations = None\<rparr>"
      "\<lparr>choices = Some [Choice (Some (js ''I cannot determine this.''))], citations = None\<rparr>"
      "Some (js ''I cannot determine this.'')" "config None None"]
    analyzeNutrition_masks_APIError [OF not_blank_apple, of
      "\<lambda>request. Resolved \<lparr>choices = Some [Choice (Some [])], citations = None\<rparr>"
      "\<lparr>choices = Some [Choice (Some [])], citations = None\<rparr>"
      "Some []" "config None None"]
    d ne js_match_undetermined
  show ?thesis
    by (simp add: first_content_def parseAIResponse_undetermined empty_response_def
        createAPIError_def)
qed

section \<open>The parser\<close>

lemma star_run_suffix:
  "t \<in> set (star_run k s) \<Longrightarrow> \<exists>p. s = p @ t \<and> list_all (cmatch k) p"
proof (induction s)
  case Nil
  then show ?case by simp
next
  case (Cons c cs)
  show ?case
  proof (cases "t = c # cs")
    case True
    then show ?thesis by simp
  next
    case False
    with Cons.prems have m: "cmatch k c" and "t \<in> set (star_run k cs)"
      by (auto split: if_splits)
    with Cons.IH obtain p where "cs = p @ t" "list_all (cmatch k) p" by blast
    with m have "c # cs = (c # p) @ t \<and> list_all (cmatch k) (c # p)" by simp
    then show ?thesis by blast
  qed
qed

lemma first_success_mem:
  "first_success b ts = Some t \<Longrightarrow> t \<in> set ts \<and> rx_run b t \<noteq> []"
  by (induction ts) (auto split: list.splits)

lemma match_here_digits:
  assumes "match_here (Plus Digit) b s = Some g"
  shows "g \<noteq> [] \<and> list_all is_digit g \<and> (\<exists>t. s = g @ t \<and> rx_run b t \<noteq> [])"
proof -
  from assms obtain t where fs: "first_success b (rx_run (Plus Digit) s) = Some t"
    and g: "g = take (length s - length t) s"
    by (auto simp: match_here_def split: option.splits)
  from first_success_mem [OF fs] have mem: "t \<in> set (rx_run (Plus Digit) s)"
    and ok: "rx_run b t \<noteq> []" by simp_all
  from mem obtain c cs where s: "s = c # cs" and d: "is_digit c"
    and st: "t \<in> set (star_run Digit cs)"
    by (cases s) (auto split: if_splits)
  from star_run_suffix [OF st] obtain p where cs: "cs = p @ t"
    and ds: "list_all (cmatch Digit) p" by blast
  from s cs g have "g = c # p" by simp
  with s cs d ds ok show ?thesis by (auto simp: list_all_iff)
qed

lemma js_match_digits:
  "js_match (Plus Digit) b s = Some g \<Longrightarrow>
     g \<noteq> [] \<and> list_all is_digit g \<and> (\<exists>pre t. s = pre @ g @ t \<and> rx_run b t \<noteq> [])"
proof (induction s)
  case Nil
  from match_here_digits [of b "[]" g] Nil show ?case by auto
next
  case (Cons c cs)
  show ?case
  proof (cases "match_here (Plus Digit) b (c # cs)")
    case None
    with Cons.prems have "js_match (Plus Digit) b cs = Some g" by simp
    from Cons.IH [OF this] obtain pre t where "g \<noteq> []" "list_all is_digit g"
      "cs = pre @ g @ t" "rx_run b t \<noteq> []" by blast
    then have "c # cs = (c # pre) @ g @ t" by simp
    with \<open>g \<noteq> []\<close> \<open>list_all is_digit g\<close> \<open>rx_run b t \<noteq> []\<close> show ?thesis by blast
  next
    case (Some h)
    with Cons.prems have "h = g" by simp
    with Some match_here_digits [of b "c # cs" g]
    obtain t where "g \<noteq> []" "list_all is_digit g" "c # cs = [] @ g @ t" "rx_run b t \<noteq> []"
      by auto
    then show ?thesis by blast
  qed
qed

lemma decode_strict_object:
  assumes "JSON_parse content = Some (JObject kvs)"
    and "own_property kvs ''calories'' = Some (JNumber c)"
    and "own_property kvs ''protein'' = Some (JNumber p)"
    and "own_property kvs ''carbs'' = Some (JNumber b)"
    and "own_property kvs ''fat'' = Some (JNumber f)"
  shows "decode_strict content =
     Some \<lparr>calories = Math_round c, protein = Math_round p, carbs = Math_round b,
            fat = Math_round f,
            explanation = or_default (own_property kvs ''explanation'')
                            (JString (js ''No explanation provided'')),
            confidence = or_default (own_property kvs ''confidence'')
                           (JNumber (to_double 8 10)),
            sources = or_default (own_property kvs ''sources'') (JArray [])\<rparr>"
  using assms by (simp add: decode_strict_def number_property_def property_def)

lemma decode_strict_fails:
  assumes "JSON_parse content = None
     \<or> (\<exists>parsed k. JSON_parse content = Some parsed
           \<and> k \<in> {''calories'', ''protein'', ''carbs'', ''fat''}
           \<and> number_property parsed k = None)"
  shows "decode_strict content = None"
  using assms by (auto simp: decode_strict_def split: option.splits if_splits)

subsection \<open>Case of letters\<close>

lemma is_lower_unat: "is_lower c \<longleftrightarrow> 97 \<le> unat c \<and> unat c \<le> 122"
  by (simp add: is_lower_def word_le_nat_alt)

lemma is_digit_unat: "is_digit c \<longleftrightarrow> 48 \<le> unat c \<and> unat c \<le> 57"
  by (simp add: is_digit_def word_le_nat_alt)

lemma is_js_whitespace_unat:
  "is_js_whitespace c \<longleftrightarrow>
     unat c \<in> {9, 10, 11, 12, 13, 32, 160, 5760, 8232, 8233, 8239, 8287, 12288, 65279}
     \<or> (8192 \<le> unat c \<and> unat c \<le> 8202)"
  by (simp add: is_js_whitespace_def word_le_nat_alt word_unat_eq_iff)

lemma unat_upper: "is_lower c \<Longrightarrow> unat (c - 0x20) = unat c - 32"
proof -
  assume "is_lower c"
  then have "(0x20 :: jschar) \<le> c" by (simp add: is_lower_unat word_le_nat_alt)
  then show ?thesis by (simp add: unat_sub)
qed

lemma upper_not_lower: "is_lower c \<Longrightarrow> is_lower l \<Longrightarrow> c - 0x20 \<noteq> l"
proof
  assume c: "is_lower c" and l: "is_lower l" and e: "c - 0x20 = l"
  from e have "unat (c - 0x20) = unat l" by simp
  with unat_upper [OF c] c l show False by (simp add: is_lower_unat; arith)
qed

lemma upper_digit: "is_digit (ascii_upper c) = is_digit c"
proof (cases "is_lower c")
  case True
  with unat_upper [OF True] show ?thesis
    by (simp add: ascii_upper_def is_digit_unat is_lower_unat; arith)
next
  case False
  then show ?thesis by (simp add: ascii_upper_def)
qed

lemma upper_space: "is_js_whitespace (ascii_upper c) = is_js_whitespace c"
proof (cases "is_lower c")
  case True
  with unat_upper [OF True] show ?thesis
    by (simp add: ascii_upper_def is_js_whitespace_unat is_lower_unat; arith)
next
  case False
  then show ?thesis by (simp add: ascii_upper_def)
qed

lemma upper_letter:
  assumes "is_lower l"
  shows "(ascii_upper c = l \<or> ascii_upper c = l - 0x20) \<longleftrightarrow> (c = l \<or> c = l - 0x20)"
proof (cases "is_lower c")
  case True
  from upper_not_lower [OF True assms] upper_not_lower [OF assms True]
  show ?thesis by (auto simp: ascii_upper_def True)
next
  case False
  then show ?thesis by (simp add: ascii_upper_def)
qed

lemma cmatch_upper: "lower_class k \<Longrightarrow> cmatch k (ascii_upper c) = cmatch k c"
  by (cases k) (simp_all add: upper_digit upper_space upper_letter)

lemma star_run_upper:
  "lower_class k \<Longrightarrow>
     star_run k (map ascii_upper s) = map (map ascii_upper) (star_run k s)"
  by (induction s) (simp_all add: cmatch_upper)

lemma rx_run_upper:
  "lower_regex r \<Longrightarrow> rx_run r (map ascii_upper s) = map (map ascii_upper) (rx_run r s)"
proof (induction r arbitrary: s)
  case (Seq a b)
  then show ?case by (simp add: map_concat comp_def)
qed (auto simp: cmatch_upper star_run_upper split: list.splits)

lemma first_success_upper:
  "lower_regex b \<Longrightarrow>
     first_success b (map (map ascii_upper) ts) = map_option (map ascii_upper) (first_success b ts)"
  by (induction ts) (auto simp: rx_run_upper split: list.splits)

lemma match_here_upper:
  "lower_regex a \<Longrightarrow> lower_regex b \<Longrightarrow>
     match_here a b (map ascii_upper s) = map_option (map ascii_upper) (match_here a b s)"
  by (simp add: match_here_def rx_run_upper first_success_upper take_map split: option.splits)

lemma js_match_upper:
  "lower_regex a \<Longrightarrow> lower_regex b \<Longrightarrow>
     js_match a b (map ascii_upper s) = map_option (map ascii_upper) (js_match a b s)"
proof (induction s)
  case Nil
  from match_here_upper [OF Nil, of "[]"] show ?case by simp
next
  case (Cons c cs)
  from match_here_upper [OF Cons.prems, of "c # cs"] Cons.IH [OF Cons.prems]
  show ?case by (auto split: option.splits)
qed

lemma upper_digits: "list_all is_digit g \<Longrightarrow> map ascii_upper g = g"
proof (induction g)
  case Nil
  then show ?case by simp
next
  case (Cons c g)
  then have "is_digit c" by simp
  then have "ascii_upper c = c"
    by (simp add: ascii_upper_def is_digit_unat is_lower_unat)
  with Cons show ?case by simp
qed

lemma js_match_case:
  assumes "lower_regex b"
  shows "js_match (Plus Digit) b (map ascii_upper s) = js_match (Plus Digit) b s"
proof (cases "js_match (Plus Digit) b s")
  case None
  with js_match_upper [of "Plus Digit" b s] assms show ?thesis by simp
next
  case (Some g)
  from js_match_digits [OF Some] have "map ascii_upper g = g" by (simp add: upper_digits)
  with js_match_upper [of "Plus Digit" b s] assms Some show ?thesis by simp
qed

lemma lower_tails:
  "lower_regex calorie_tail" "lower_regex (macro_tail ''protein'')"
  "lower_regex (macro_tail ''carb'')" "lower_regex (macro_tail ''fat'')"
  by (simp_all add: calorie_tail_def macro_tail_def is_lower_def)

lemma js_match_insensitive:
  assumes "map ascii_upper other = map ascii_upper content"
  shows "js_match (Plus Digit) calorie_tail other = js_match (Plus Digit) calorie_tail content"
    "js_match (Plus Digit) (macro_tail ''protein'') other
       = js_match (Plus Digit) (macro_tail ''protein'') content"
    "js_match (Plus Digit) (macro_tail ''carb'') other
       = js_match (Plus Digit) (macro_tail ''carb'') content"
    "js_match (Plus Digit) (macro_tail ''fat'') other
       = js_match (Plus Digit) (macro_tail ''fat'') content"
proof -
  have "js_match (Plus Digit) b other = js_match (Plus Digit) b content" if "lower_regex b" for b
    using js_match_case [OF that, of other] js_match_case [OF that, of content] assms by simp
  from this [OF lower_tails(1)] this [OF lower_tails(2)] this [OF lower_tails(3)]
    this [OF lower_tails(4)]
  show "js_match (Plus Digit) calorie_tail other = js_match (Plus Digit) calorie_tail content"
    "js_match (Plus Digit) (macro_tail ''protein'') other
       = js_match (Plus Digit) (macro_tail ''protein'') content"
    "js_match (Plus Digit) (macro_tail ''carb'') other
       = js_match (Plus Digit) (macro_tail ''carb'') content"
    "js_match (Plus Digit) (macro_tail ''fat'') other
       = js_match (Plus Digit) (macro_tail ''fat'') content"
    by simp_all
qed

subsection \<open>The patterns at short texts\<close>

lemma calorie_pattern:
  "js_match (Plus Digit) calorie_tail (js ''12 34 cal'') = Some (js ''34'')"
  "js_match (Plus Digit) calorie_tail (js ''300 Calories'') = Some (js ''300'')"
  "js_match (Plus Digit) calorie_tail (js ''450kcal, 90 cal'') = Some (js ''450'')"
  "js_match (Plus Digit) calorie_tail (js ''450 kilocalories'') = None"
  "js_match (Plus Digit) calorie_tail (js ''cal 450'') = None"
  by (simp_all add: regex_eval)

lemma macro_pattern:
  "js_match (Plus Digit) (macro_tail ''protein'') (js ''25 grams of protein'') = Some (js ''25'')"
  "js_match (Plus Digit) (macro_tail ''protein'') (js ''25g Protein'') = Some (js ''25'')"
  "js_match (Plus Digit) (macro_tail ''protein'') (js ''25 mg protein'') = None"
  "js_match (Plus Digit) (macro_tail ''protein'') (js ''protein 25'') = None"
  "js_match (Plus Digit) (macro_tail ''carb'') (js ''40 gram carbs'') = Some (js ''40'')"
  "js_match (Plus Digit) (macro_tail ''carb'') (js ''40 fat'') = None"
  "js_match (Plus Digit) (macro_tail ''fat'') (js ''7fat'') = Some (js ''7'')"
  "js_match (Plus Digit) (macro_tail ''fat'') (js ''12 of  fat'') = Some (js ''12'')"
  "js_match (Plus Digit) (macro_tail ''fat'') (js ''12 g of of fat'') = None"
  "js_match (Plus Digit) (macro_tail ''fat'') (js ''12 offat'') = None"
  by (simp_all add: regex_eval)

lemma JSON_parse_label:
  "JSON_parse (js ''300 Calories, 25 grams of protein, 40g carbs, 12 G fat'') = None"
  "JSON_parse (js ''9007199254740993 kcal'') = None"
  by (simp_all add: lexer_eval)

lemma js_match_label:
  "js_match (Plus Digit) calorie_tail
     (js ''300 Calories, 25 grams of protein, 40g carbs, 12 G fat'') = Some (js ''300'')"
  "js_match (Plus Digit) (macro_tail ''protein'')
     (js ''300 Calories, 25 grams of protein, 40g carbs, 12 G fat'') = Some (js ''25'')"
  "js_match (Plus Digit) (macro_tail ''carb'')
     (js ''300 Calories, 25 grams of protein, 40g carbs, 12 G fat'') = Some (js ''40'')"
  "js_match (Plus Digit) (macro_tail ''fat'')
     (js ''300 Calories, 25 grams of protein, 40g carbs, 12 G fat'') = Some (js ''12'')"
  by (simp_all add: regex_eval)

lemma parseInt_label:
  "parseInt (js ''300'') = Num 300" "parseInt (js ''25'') = Num 25"
  "parseInt (js ''40'') = Num 40" "parseInt (js ''12'') = Num 12"
  by (simp_all add: parseInt_def digits_val_def digit_val_def js_def to_double_exact_numeral)

lemma parseAIResponse_label:
  "parseAIResponse (js ''300 Calories, 25 grams of protein, 40g carbs, 12 G fat'')
   = Inr \<lparr>calories = Num 300, protein = Num 25, carbs = Num 40, fat = Num 12,
       explanation = JString (js ''300 Calories, 25 grams of protein, 40g carbs, 12 G fat''),
       confidence = JNumber (to_double 6 10), sources = JArray []\<rparr>"
  unfolding parseAIResponse_def decode_strict_def JSON_parse_label extractNutritionFromText_def
    js_match_label
  by (simp add: parseInt_label take_js)

lemma js_match_large:
  "js_match (Plus Digit) calorie_tail (js ''9007199254740993 kcal'')
   = Some (js ''9007199254740993'')"
  "js_match (Plus Digit) (macro_tail ''protein'') (js ''9007199254740993 kcal'') = None"
  "js_match (Plus Digit) (macro_tail ''carb'') (js ''9007199254740993 kcal'') = None"
  "js_match (Plus Digit) (macro_tail ''fat'') (js ''9007199254740993 kcal'') = None"
  by (simp_all add: regex_eval)

lemma digits_val_large: "digits_val (js ''9007199254740993'') = 9007199254740993"
  by (simp add: digits_val_def digit_val_def js_def)

lemma parseInt_large: "parseInt (js ''9007199254740993'') = Num 9007199254740992"
  unfolding parseInt_def digits_val_large by (simp add: double_eval)

lemma parseAIResponse_large:
  "parseAIResponse (js ''9007199254740993 kcal'')
   = Inr \<lparr>calories = Num 9007199254740992, protein = Num 20, carbs = Num 30, fat = Num 10,
       explanation = JString (js ''9007199254740993 kcal''),
       confidence = JNumber (to_double 6 10), sources = JArray []\<rparr>"
  unfolding parseAIResponse_def decode_strict_def JSON_parse_label extractNutritionFromText_def
    js_match_large
  by (simp add: parseInt_large take_js)

subsection \<open>A run of digits too long for a double\<close>

lemma star_run_digits:
  "list_all is_digit ds \<Longrightarrow> t = [] \<or> \<not> is_digit (hd t) \<Longrightarrow>
     \<exists>rest. star_run Digit (ds @ t) = t # rest"
proof (induction ds)
  case Nil
  then show ?case by (cases t) auto
next
  case (Cons d ds)
  then obtain rest where "star_run Digit (ds @ t) = t # rest" by auto
  with Cons.prems(1) show ?case by simp
qed

lemma js_match_prefix:
  assumes "list_all is_digit (d # ds)" and "t = [] \<or> \<not> is_digit (hd t)"
    and "rx_run b t \<noteq> []"
  shows "js_match (Plus Digit) b ((d # ds) @ t) = Some (d # ds)"
proof -
  from assms(1) have d: "is_digit d" and ds: "list_all is_digit ds" by simp_all
  from star_run_digits [OF ds assms(2)] obtain rest
    where s: "star_run Digit (ds @ t) = t # rest" by blast
  from assms(3) obtain x xs where "rx_run b t = x # xs" by (cases "rx_run b t") auto
  with s d have "match_here (Plus Digit) b ((d # ds) @ t) = Some (d # ds)"
    by (simp add: match_here_def)
  then show ?thesis by simp
qed

lemma digits_val_nines: "foldl (\<lambda>n c. 10 * n + digit_val c) a (replicate k 0x39) + 1
    = (a + 1) * 10 ^ k"
proof (induction k arbitrary: a)
  case 0
  then show ?case by simp
next
  case (Suc k)
  have "digit_val 0x39 = 9" by (simp add: digit_val_def)
  with Suc [of "10 * a + 9"] show ?case by (simp add: algebra_simps)
qed

lemma parseInt_nines: "parseInt (replicate 309 0x39) = Infinity"
proof -
  from digits_val_nines [of 0 309] have "digits_val (replicate 309 0x39) + 1 = 10 ^ 309"
    by (simp add: digits_val_def)
  then have "digits_val (replicate 309 0x39) = 10 ^ 309 - 1" by simp
  then show ?thesis by (simp add: parseInt_def to_double_overflow)
qed

lemma js_match_nines:
  "js_match (Plus Digit) calorie_tail (replicate 309 0x39 @ js ''cal'')
   = Some (replicate 309 0x39)"
proof -
  have r: "replicate 309 (0x39 :: jschar) = 0x39 # replicate 308 0x39"
    by (simp add: replicate_Suc [symmetric] del: replicate_Suc)
  have "list_all is_digit (0x39 # replicate 308 0x39)"
    by (simp add: list_all_iff is_digit_def)
  moreover have "js ''cal'' = [] \<or> \<not> is_digit (hd (js ''cal''))"
    by (simp add: js_def is_digit_def)
  moreover have "rx_run calorie_tail (js ''cal'') \<noteq> []"
    by (simp add: regex_eval)
  ultimately show ?thesis unfolding r by (rule js_match_prefix)
qed

text \<open>
  C7, as amended. When the response text decodes as a JSON object whose \<open>calories\<close>,
  \<open>protein\<close>, \<open>carbs\<close> and \<open>fat\<close> are numbers, the parser returns
  \<open>Math.round\<close> of each of the four: a finite number rounded to the nearest integer
  (a tie going up), an infinity as it is. The explanation is a fixed placeholder when
  the property is absent (or falsy), the confidence is 0.8 when it is absent or falsy,
  the sources are the empty sequence when absent (or falsy), and each of the three is
  the property's value otherwise. In particular, the input of the specification yields
  453, 23, 33, 25, confidence 0.9 and sources [USDA].
\<close>

theorem parseAIResponse_json:
  assumes "JSON_parse content = Some (JObject kvs)"
    and "own_property kvs ''calories'' = Some (JNumber c)"
    and "own_property kvs ''protein'' = Some (JNumber p)"
    and "own_property kvs ''carbs'' = Some (JNumber b)"
    and "own_property kvs ''fat'' = Some (JNumber f)"
  shows "(\<exists>r. parseAIResponse content = Inr r
            \<and> calories r = Math_round c \<and> protein r = Math_round p
            \<and> carbs r = Math_round b \<and> fat r = Math_round f
            \<and> (own_property kvs ''explanation'' = None \<longrightarrow>
                 explanation r = JString (js ''No explanation provided''))
            \<and> (\<forall>v. own_property kvs ''explanation'' = Some v \<longrightarrow>
                 explanation r = (if truthy v then v else JString (js ''No explanation provided'')))
            \<and> (own_property kvs ''confidence'' = None \<longrightarrow>
                 confidence r = JNumber (to_double 8 10))
            \<and> (\<forall>v. own_property kvs ''confidence'' = Some v \<longrightarrow>
                 confidence r = (if truthy v then v else JNumber (to_double 8 10)))
            \<and> (own_property kvs ''sources'' = None \<longrightarrow> sources r = JArray [])
            \<and> (\<forall>v. own_property kvs ''sources'' = Some v \<longrightarrow>
                 sources r = (if truthy v then v else JArray [])))
       \<and> (\<forall>x. \<exists>y. Math_round (Num x) = Num y \<and> nearest_integer x y)
       \<and> Math_round Infinity = Infinity \<and> Math_round MinusInfinity = MinusInfinity
       \<and> parseAIResponse
            (js ''{\"calories\":452.6,\"protein\":23.1,\"carbs\":33,\"fat\":25,\"confidence\":0.9,\"sources\":[\"USDA\"]}'')
          = Inr \<lparr>calories = Num 453, protein = Num 23, carbs = Num 33, fat = Num 25,
              explanation = JString (js ''No explanation provided''),
              confidence = JNumber (to_double 9 10),
              sources = JArray [JString (js ''USDA'')]\<rparr>"
proof -
  have r: "parseAIResponse content =
     Inr \<lparr>calories = Math_round c, protein = Math_round p, carbs = Math_round b,
           fat = Math_round f,
           explanation = or_default (own_property kvs ''explanation'')
                           (JString (js ''No explanation provided'')),
           confidence = or_default (own_property kvs ''confidence'')
                          (JNumber (to_double 8 10)),
           sources = or_default (own_property kvs ''sources'') (JArray [])\<rparr>"
    by (simp add: parseAIResponse_def decode_strict_object [OF assms])
  have general: "\<exists>r. parseAIResponse content = Inr r
            \<and> calories r = Math_round c \<and> protein r = Math_round p
            \<and> carbs r = Math_round b \<and> fat r = Math_round f
            \<and> (own_property kvs ''explanation'' = None \<longrightarrow>
                 explanation r = JString (js ''No explanation provided''))
            \<and> (\<forall>v. own_property kvs ''explanation'' = Some v \<longrightarrow>
                 explanation r = (if truthy v then v else JString (js ''No explanation provided'')))
            \<and> (own_property kvs ''confidence'' = None \<longrightarrow>
                 confidence r = JNumber (to_double 8 10))
            \<and> (\<forall>v. own_property kvs ''confidence'' = Some v \<longrightarrow>
                 confidence r = (if truthy v then v else JNumber (to_double 8 10)))
            \<and> (own_property kvs ''sources'' = None \<longrightarrow> sources r = JArray [])
            \<and> (\<forall>v. own_property kvs ''sources'' = Some v \<longrightarrow>
                 sources r = (if truthy v then v else JArray []))"
    unfolding r by (simp add: or_default_def)
  from general parseAIResponse_example Math_round_nearest Math_round_infinite
  show ?thesis by blast
qed

text \<open>
  The theorem at the input of the specification, and at a text whose calories overflow
  to \<open>Infinity\<close> and whose confidence underflows to 0, which is falsy.
\<close>

theorem parseAIResponse_json_witness:
  "JSON_parse
     (js ''{\"calories\":452.6,\"protein\":23.1,\"carbs\":33,\"fat\":25,\"confidence\":0.9,\"sources\":[\"USDA\"]}'')
   = Some (JObject
       [(js ''calories'', JNumber (to_double 4526 10)),
        (js ''protein'', JNumber (to_double 231 10)),
        (js ''carbs'', JNumber (Num 33)), (js ''fat'', JNumber (Num 25)),
        (js ''confidence'', JNumber (to_double 9 10)),
        (js ''sources'', JArray [JString (js ''USDA'')])])
   \<and> Math_round (to_double 4526 10) = Num 453 \<and> Math_round (to_double 231 10) = Num 23
   \<and> Math_round (Num 33) = Num 33 \<and> Math_round (Num 25) = Num 25
   \<and> (\<exists>r. parseAIResponse
         (js ''{\"calories\":452.6,\"protein\":23.1,\"carbs\":33,\"fat\":25,\"confidence\":0.9,\"sources\":[\"USDA\"]}'')
         = Inr r
        \<and> calories r = Num 453 \<and> protein r = Num 23 \<and> carbs r = Num 33 \<and> fat r = Num 25
        \<and> explanation r = JString (js ''No explanation provided'')
        \<and> confidence r = JNumber (to_double 9 10)
        \<and> sources r = JArray [JString (js ''USDA'')])
   \<and> (\<exists>r. parseAIResponse
         (js ''{\"calories\":1e400,\"protein\":1,\"carbs\":1,\"fat\":1,\"confidence\":1e-400}'')
         = Inr r
        \<and> calories r = Infinity \<and> protein r = Num 1 \<and> carbs r = Num 1 \<and> fat r = Num 1
        \<and> confidence r = JNumber (to_double 8 10)
        \<and> sources r = JArray [])"
proof -
  have p:
    "own_property
       [(js ''calories'', JNumber (to_double 4526 10)),
        (js ''protein'', JNumber (to_double 231 10)),
        (js ''carbs'', JNumber (Num 33)), (js ''fat'', JNumber (Num 25)),
        (js ''confidence'', JNumber (to_double 9 10)),
        (js ''sources'', JArray [JString (js ''USDA'')])] ''calories''
     = Some (JNumber (to_double 4526 10))"
    "own_property
       [(js ''calories'', JNumber (to_double 4526 10)),
        (js ''protein'', JNumber (to_double 231 10)),
        (js ''carbs'', JNumber (Num 33)), (js ''fat'', JNumber (Num 25)),
        (js ''confidence'', JNumber (to_double 9 10)),
        (js ''sources'', JArray [JString (js ''USDA'')])] ''protein''
     = Some (JNumber (to_double 231 10))"
    "own_property
       [(js ''calories'', JNumber (to_double 4526 10)),
        (js ''protein'', JNumber (to_double 231 10)),
        (js ''carbs'', JNumber (Num 33)), (js ''fat'', JNumber (Num 25)),
        (js ''confidence'', JNumber (to_double 9 10)),
        (js ''sources'', JArray [JString (js ''USDA'')])] ''carbs''
     = Some (JNumber (Num 33))"
    "own_property
       [(js ''calories'', JNumber (to_double 4526 10)),
        (js ''protein'', JNumber (to_double 231 10)),
        (js ''carbs'', JNumber (Num 33)), (js ''fat'', JNumber (Num 25)),
        (js ''confidence'', JNumber (to_double 9 10)),
        (js ''sources'', JArray [JString (js ''USDA'')])] ''fat''
     = Some (JNumber (Num 25))"
    by (simp_all add: own_property_def js_eq_iff)
  have q:
    "own_property
       [(js ''calories'', JNumber Infinity), (js ''protein'', JNumber (Num 1)),
        (js ''carbs'', JNumber (Num 1)), (js ''fat'', JNumber (Num 1)),
        (js ''confidence'', JNumber (Num 0))] ''calories'' = Some (JNumber Infinity)"
    "own_property
       [(js ''calories'', JNumber Infinity), (js ''protein'', JNumber (Num 1)),
        (js ''carbs'', JNumber (Num 1)), (js ''fat'', JNumber (Num 1)),
        (js ''confidence'', JNumber (Num 0))] ''protein'' = Some (JNumber (Num 1))"
    "own_property
       [(js ''calories'', JNumber Infinity), (js ''protein'', JNumber (Num 1)),
        (js ''carbs'', JNumber (Num 1)), (js ''fat'', JNumber (Num 1)),
        (js ''confidence'', JNumber (Num 0))] ''carbs'' = Some (JNumber (Num 1))"
    "own_property
       [(js ''calories'', JNumber Infinity), (js ''protein'', JNumber (Num 1)),
        (js ''carbs'', JNumber (Num 1)), (js ''fat'', JNumber (Num 1)),
        (js ''confidence'', JNumber (Num 0))] ''fat'' = Some (JNumber (Num 1))"
    by (simp_all add: own_property_def js_eq_iff)
  from parseAIResponse_json [OF JSON_parse_example p]
    parseAIResponse_json [OF JSON_parse_overflow q]
  show ?thesis
    by (auto simp: JSON_parse_example Math_round_example Math_round_infinite own_property_def
        js_eq_iff truthy_def to_double_literals)
qed

text \<open>
  C7 as stated fails: a text that is strict JSON with the number \<open>1e400\<close> as its
  calories decodes to \<open>Infinity\<close> and resolves to a result whose calories are
  \<open>Infinity\<close>, which is not an integer.
\<close>

theorem parseAIResponse_json_counterexample:
  "JSON_parse (js ''{\"calories\":1e400,\"protein\":1,\"carbs\":1,\"fat\":1,\"confidence\":1e-400}'')
   = Some (JObject
       [(js ''calories'', JNumber Infinity), (js ''protein'', JNumber (Num 1)),
        (js ''carbs'', JNumber (Num 1)), (js ''fat'', JNumber (Num 1)),
        (js ''confidence'', JNumber (Num 0))])
   \<and> parseAIResponse
       (js ''{\"calories\":1e400,\"protein\":1,\"carbs\":1,\"fat\":1,\"confidence\":1e-400}'')
     = Inr \<lparr>calories = Infinity, protein = Num 1, carbs = Num 1, fat = Num 1,
         explanation = JString (js ''No explanation provided''),
         confidence = JNumber (to_double 8 10), sources = JArray []\<rparr>
   \<and> \<not> is_integer Infinity"
  by (simp add: JSON_parse_overflow parseAIResponse_overflow is_integer_def)

text \<open>
  C8, as amended. When strict decoding fails (the text is not JSON, or one of the four
  properties is missing or not a number), the parser scans the text with the regular
  expressions, and the scan does not depend on the case of the letters. When the calorie
  pattern matches, the calories are \<open>parseInt\<close> of the matched run of decimal digits
  (a run of the text, followed there by the rest of the pattern): the double nearest to
  the matched number, which is that number itself below \<open>2^53\<close>. Protein, carbs and
  fat are taken likewise from their patterns, or are 20, 30 and 10; the explanation is
  the first 500 characters of the text, the confidence 0.6, and there are no sources.
  The patterns take the first number of the text that is followed by optional white
  space and the word (for protein, carbs and fat, with an optional unit \<open>g\<close>,
  \<open>gram\<close> or \<open>grams\<close> and an optional \<open>of\<close> in between), as the short
  texts show. In particular, the prose of the specification yields 450, 20, 30, 10 and
  0.6.
\<close>

theorem parseAIResponse_fallback:
  assumes "JSON_parse content = None
     \<or> (\<exists>parsed k. JSON_parse content = Some parsed
           \<and> k \<in> {''calories'', ''protein'', ''carbs'', ''fat''}
           \<and> number_property parsed k = None)"
  shows "parseAIResponse content = extractNutritionFromText content
       \<and> (\<forall>cal. js_match (Plus Digit) calorie_tail content = Some cal \<longrightarrow>
            parseAIResponse content
              = Inr \<lparr>calories = parseInt cal,
                  protein = (case js_match (Plus Digit) (macro_tail ''protein'') content of
                               Some g \<Rightarrow> parseInt g | None \<Rightarrow> Num 20),
                  carbs = (case js_match (Plus Digit) (macro_tail ''carb'') content of
                             Some g \<Rightarrow> parseInt g | None \<Rightarrow> Num 30),
                  fat = (case js_match (Plus Digit) (macro_tail ''fat'') content of
                           Some g \<Rightarrow> parseInt g | None \<Rightarrow> Num 10),
                  explanation = JString (take 500 content),
                  confidence = JNumber (to_double 6 10),
                  sources = JArray []\<rparr>
            \<and> cal \<noteq> [] \<and> list_all is_digit cal
            \<and> (\<exists>before after. content = before @ cal @ after
                 \<and> rx_run calorie_tail after \<noteq> []))
       \<and> (\<forall>g. parseInt g = to_double (digits_val g) 1
              \<and> (digits_val g < 2 ^ 53 \<longrightarrow> parseInt g = Num (of_nat (digits_val g))))
       \<and> (\<forall>other. map ascii_upper other = map ascii_upper content \<longrightarrow>
            js_match (Plus Digit) calorie_tail other
              = js_match (Plus Digit) calorie_tail content
            \<and> js_match (Plus Digit) (macro_tail ''protein'') other
              = js_match (Plus Digit) (macro_tail ''protein'') content
            \<and> js_match (Plus Digit) (macro_tail ''carb'') other
              = js_match (Plus Digit) (macro_tail ''carb'') content
            \<and> js_match (Plus Digit) (macro_tail ''fat'') other
              = js_match (Plus Digit) (macro_tail ''fat'') content)
       \<and> js_match (Plus Digit) calorie_tail (js ''12 34 cal'') = Some (js ''34'')
       \<and> js_match (Plus Digit) calorie_tail (js ''300 Calories'') = Some (js ''300'')
       \<and> js_match (Plus Digit) calorie_tail (js ''450kcal, 90 cal'') = Some (js ''450'')
       \<and> js_match (Plus Digit) calorie_tail (js ''450 kilocalories'') = None
       \<and> js_match (Plus Digit) calorie_tail (js ''cal 450'') = None
       \<and> js_match (Plus Digit) (macro_tail ''protein'') (js ''25 grams of protein'')
          = Some (js ''25'')
       \<and> js_match (Plus Digit) (macro_tail ''protein'') (js ''25g Protein'') = Some (js ''25'')
       \<and> js_match (Plus Digit) (macro_tail ''protein'') (js ''25 mg protein'') = None
       \<and> js_match (Plus Digit) (macro_tail ''protein'') (js ''protein 25'') = None
       \<and> js_match (Plus Digit) (macro_tail ''carb'') (js ''40 gram carbs'') = Some (js ''40'')
       \<and> js_match (Plus Digit) (macro_tail ''carb'') (js ''40 fat'') = None
       \<and> js_match (Plus Digit) (macro_tail ''fat'') (js ''7fat'') = Some (js ''7'')
       \<and> js_match (Plus Digit) (macro_tail ''fat'') (js ''12 of  fat'') = Some (js ''12'')
       \<and> js_match (Plus Digit) (macro_tail ''fat'') (js ''12 g of of fat'') = None
       \<and> js_match (Plus Digit) (macro_tail ''fat'') (js ''12 offat'') = None
       \<and> parseAIResponse (js ''300 Calories, 25 grams of protein, 40g carbs, 12 G fat'')
          = Inr \<lparr>calories = Num 300, protein = Num 25, carbs = Num 40, fat = Num 12,
              explanation =
                JString (js ''300 Calories, 25 grams of protein, 40g carbs, 12 G fat''),
              confidence = JNumber (to_double 6 10), sources = JArray []\<rparr>
       \<and> parseAIResponse (js ''This meal has about 450 kcal and 20g protein'')
          = Inr \<lparr>calories = Num 450, protein = Num 20, carbs = Num 30, fat = Num 10,
              explanation = JString (js ''This meal has about 450 kcal and 20g protein''),
              confidence = JNumber (to_double 6 10), sources = JArray []\<rparr>"
proof -
  have fb: "parseAIResponse content = extractNutritionFromText content"
    by (simp add: parseAIResponse_def decode_strict_fails [OF assms])
  have m: "parseAIResponse content
              = Inr \<lparr>calories = parseInt cal,
                  protein = (case js_match (Plus Digit) (macro_tail ''protein'') content of
                               Some g \<Rightarrow> parseInt g | None \<Rightarrow> Num 20),
                  carbs = (case js_match (Plus Digit) (macro_tail ''carb'') content of
                             Some g \<Rightarrow> parseInt g | None \<Rightarrow> Num 30),
                  fat = (case js_match (Plus Digit) (macro_tail ''fat'') content of
                           Some g \<Rightarrow> parseInt g | None \<Rightarrow> Num 10),
                  explanation = JString (take 500 content),
                  confidence = JNumber (to_double 6 10),
                  sources = JArray []\<rparr>
            \<and> cal \<noteq> [] \<and> list_all is_digit cal
            \<and> (\<exists>before after. content = before @ cal @ after
                 \<and> rx_run calorie_tail after \<noteq> [])"
    if m: "js_match (Plus Digit) calorie_tail content = Some cal" for cal
    using js_match_digits [OF m] m by (simp add: fb extractNutritionFromText_def)
  have p: "parseInt g = to_double (digits_val g) 1
              \<and> (digits_val g < 2 ^ 53 \<longrightarrow> parseInt g = Num (of_nat (digits_val g)))" for g
    using parseInt_exact [of g] by (simp add: parseInt_def)
  have ci: "js_match (Plus Digit) calorie_tail other
              = js_match (Plus Digit) calorie_tail content
            \<and> js_match (Plus Digit) (macro_tail ''protein'') other
              = js_match (Plus Digit) (macro_tail ''protein'') content
            \<and> js_match (Plus Digit) (macro_tail ''carb'') other
              = js_match (Plus Digit) (macro_tail ''carb'') content
            \<and> js_match (Plus Digit) (macro_tail ''fat'') other
              = js_match (Plus Digit) (macro_tail ''fat'') content"
    if "map ascii_upper other = map ascii_upper content" for other
    by (intro conjI js_match_insensitive [OF that])
  have general: "parseAIResponse content = extractNutritionFromText content
       \<and> (\<forall>cal. js_match (Plus Digit) calorie_tail content = Some cal \<longrightarrow>
            parseAIResponse content
              = Inr \<lparr>calories = parseInt cal,
                  protein = (case js_match (Plus Digit) (macro_tail ''protein'') content of
                               Some g \<Rightarrow> parseInt g | None \<Rightarrow> Num 20),
                  carbs = (case js_match (Plus Digit) (macro_tail ''carb'') content of
                             Some g \<Rightarrow> parseInt g | None \<Rightarrow> Num 30),
                  fat = (case js_match (Plus Digit) (macro_tail ''fat'') content of
                           Some g \<Rightarrow> parseInt g | None \<Rightarrow> Num 10),
                  explanation = JString (take 500 content),
                  confidence = JNumber (to_double 6 10),
                  sources = JArray []\<rparr>
            \<and> cal \<noteq> [] \<and> list_all is_digit cal
            \<and> (\<exists>before after. content = before @ cal @ after
                 \<and> rx_run calorie_tail after \<noteq> []))
       \<and> (\<forall>g. parseInt g = to_double (digits_val g) 1
              \<and> (digits_val g < 2 ^ 53 \<longrightarrow> parseInt g = Num (of_nat (digits_val g))))
       \<and> (\<forall>other. map ascii_upper other = map ascii_upper content \<longrightarrow>
            js_match (Plus Digit) calorie_tail other
              = js_match (Plus Digit) calorie_tail content
            \<and> js_match (Plus Digit) (macro_tail ''protein'') other
              = js_match (Plus Digit) (macro_tail ''protein'') content
            \<and> js_match (Plus Digit) (macro_tail ''carb'') other
              = js_match (Plus Digit) (macro_tail ''carb'') content
            \<and> js_match (Plus Digit) (macro_tail ''fat'') other
              = js_match (Plus Digit) (macro_tail ''fat'') content)"
    using fb m p ci by blast
  show ?thesis
    by (intro conjI calorie_pattern macro_pattern parseAIResponse_label parseAIResponse_prose
        general [THEN conjunct1] general [THEN conjunct2, THEN conjunct1]
        general [THEN conjunct2, THEN conjunct2, THEN conjunct1]
        general [THEN conjunct2, THEN conjunct2, THEN conjunct2])
qed

text \<open>
  The theorem at the prose of the specification, and at the same prose in upper case.
\<close>

theorem parseAIResponse_fallback_witness:
  "JSON_parse (js ''This meal has about 450 kcal and 20g protein'') = None
   \<and> js_match (Plus Digit) calorie_tail (js ''This meal has about 450 kcal and 20g protein'')
     = Some (js ''450'')
   \<and> parseInt (js ''450'') = Num 450
   \<and> parseAIResponse (js ''This meal has about 450 kcal and 20g protein'')
     = Inr \<lparr>calories = Num 450, protein = Num 20, carbs = Num 30, fat = Num 10,
         explanation = JString (take 500 (js ''This meal has about 450 kcal and 20g protein'')),
         confidence = JNumber (to_double 6 10), sources = JArray []\<rparr>
   \<and> map ascii_upper (js ''THIS MEAL HAS ABOUT 450 KCAL AND 20G PROTEIN'')
     = map ascii_upper (js ''This meal has about 450 kcal and 20g protein'')
   \<and> js_match (Plus Digit) calorie_tail (js ''THIS MEAL HAS ABOUT 450 KCAL AND 20G PROTEIN'')
     = Some (js ''450'')
   \<and> js_match (Plus Digit) (macro_tail ''protein'')
       (js ''THIS MEAL HAS ABOUT 450 KCAL AND 20G PROTEIN'') = Some (js ''20'')"
proof -
  have u: "map ascii_upper (js ''THIS MEAL HAS ABOUT 450 KCAL AND 20G PROTEIN'')
     = map ascii_upper (js ''This meal has about 450 kcal and 20g protein'')"
    by (simp add: js_def ascii_upper_def is_lower_def)
  note th = parseAIResponse_fallback [of "js ''This meal has about 450 kcal and 20g protein''",
      OF disjI1, OF JSON_parse_prose(1)]
  note ci = th [THEN conjunct2, THEN conjunct2, THEN conjunct2, THEN conjunct1, rule_format,
      OF u]
  from ci have
    "js_match (Plus Digit) calorie_tail (js ''THIS MEAL HAS ABOUT 450 KCAL AND 20G PROTEIN'')
     = Some (js ''450'')"
    "js_match (Plus Digit) (macro_tail ''protein'')
       (js ''THIS MEAL HAS ABOUT 450 KCAL AND 20G PROTEIN'') = Some (js ''20'')"
    by (simp_all only: js_match_example)
  with u show ?thesis
    by (simp add: JSON_parse_prose js_match_example parseInt_example parseAIResponse_prose
        take_js del: js_match.simps)
qed

text \<open>
  C8 as stated fails: for a number of calories that no double represents, the result
  does not have the matched calories. The text \<open>9007199254740993 kcal\<close> yields
  9007199254740992.
\<close>

theorem parseAIResponse_fallback_counterexample:
  "JSON_parse (js ''9007199254740993 kcal'') = None
   \<and> js_match (Plus Digit) calorie_tail (js ''9007199254740993 kcal'')
     = Some (js ''9007199254740993'')
   \<and> digits_val (js ''9007199254740993'') = 9007199254740993
   \<and> parseAIResponse (js ''9007199254740993 kcal'')
     = Inr \<lparr>calories = Num 9007199254740992, protein = Num 20, carbs = Num 30, fat = Num 10,
         explanation = JString (js ''9007199254740993 kcal''),
         confidence = JNumber (to_double 6 10), sources = JArray []\<rparr>"
  by (simp only: JSON_parse_label js_match_large digits_val_large parseAIResponse_large
      simp_thms)

text \<open>
  C9. In a Perplexity analysis whose response parses to a result: when the result has
  no sources and the envelope has a non-empty list of citations, the returned sources
  are that list; when the result has sources, or there are no citations, the result is
  returned unchanged. An empty array is no sources, a non-empty one is.
\<close>

theorem analyzeWithPerplexity_sources:
  assumes "net (perplexityRequest mealText providerConfig) = Resolved data"
    and "first_content data = Inr (Some content)"
    and "content \<noteq> []"
    and "parseAIResponse content = Inr parsed"
  shows "(\<forall>cs. citations data = Some cs \<and> cs \<noteq> [] \<and> no_sources (sources parsed) \<longrightarrow>
            fst (analyzeWithPerplexity net mealText providerConfig)
              = Inr (parsed\<lparr>sources := JArray (map JString cs)\<rparr>))
       \<and> (\<not> no_sources (sources parsed) \<longrightarrow>
            fst (analyzeWithPerplexity net mealText providerConfig) = Inr parsed)
       \<and> (citations data = None \<or> citations data = Some [] \<longrightarrow>
            fst (analyzeWithPerplexity net mealText providerConfig) = Inr parsed)
       \<and> no_sources (JArray [])
       \<and> (\<forall>x xs. \<not> no_sources (JArray (x # xs)))"
  using assms
  by (auto simp: analyzeWithPerplexity_def perplexityResult_def Let_def no_sources_def
      truthy_def)

text \<open>
  The theorem at a response in prose (the citations are filled in) and at one in JSON
  that names its sources (they stay).
\<close>

theorem analyzeWithPerplexity_sources_witness:
  "fst (analyzeWithPerplexity
      (\<lambda>request. Resolved
         \<lparr>choices = Some [Choice (Some (js ''This meal has about 450 kcal and 20g protein''))],
          citations = Some [js ''https://fdc.nal.usda.gov'']\<rparr>)
      (js ''apple'') (getCurrentProviderConfig perplexity_config))
   = Inr \<lparr>calories = Num 450, protein = Num 20, carbs = Num 30, fat = Num 10,
       explanation = JString (js ''This meal has about 450 kcal and 20g protein''),
       confidence = JNumber (to_double 6 10),
       sources = JArray [JString (js ''https://fdc.nal.usda.gov'')]\<rparr>
   \<and> fst (analyzeWithPerplexity
      (\<lambda>request. Resolved
         \<lparr>choices = Some [Choice (Some
            (js ''{\"calories\":452.6,\"protein\":23.1,\"carbs\":33,\"fat\":25,\"confidence\":0.9,\"sources\":[\"USDA\"]}''))],
          citations = Some [js ''https://fdc.nal.usda.gov'']\<rparr>)
      (js ''apple'') (getCurrentProviderConfig perplexity_config))
   = Inr \<lparr>calories = Num 453, protein = Num 23, carbs = Num 33, fat = Num 25,
       explanation = JString (js ''No explanation provided''),
       confidence = JNumber (to_double 9 10), sources = JArray [JString (js ''USDA'')]\<rparr>"
proof -
  from analyzeWithPerplexity_sources [of
      "\<lambda>request. Resolved
         \<lparr>choices = Some [Choice (Some (js ''This meal has about 450 kcal and 20g protein''))],
          citations = Some [js ''https://fdc.nal.usda.gov'']\<rparr>"
      "js ''apple''" "getCurrentProviderConfig perplexity_config"
      "\<lparr>choices = Some [Choice (Some (js ''This meal has about 450 kcal and 20g protein''))],
          citations = Some [js ''https://fdc.nal.usda.gov'']\<rparr>"
      "js ''This meal has about 450 kcal and 20g protein''", OF refl _ _ parseAIResponse_prose]
    analyzeWithPerplexity_sources [of
      "\<lambda>request. Resolved
         \<lparr>choices = Some [Choice (Some
            (js ''{\"calories\":452.6,\"protein\":23.1,\"carbs\":33,\"fat\":25,\"confidence\":0.9,\"sources\":[\"USDA\"]}''))],
          citations = Some [js ''https://fdc.nal.usda.gov'']\<rparr>"
      "js ''apple''" "getCurrentProviderConfig perplexity_config"
      "\<lparr>choices = Some [Choice (Some
            (js ''{\"calories\":452.6,\"protein\":23.1,\"carbs\":33,\"fat\":25,\"confidence\":0.9,\"sources\":[\"USDA\"]}''))],
          citations = Some [js ''https://fdc.nal.usda.gov'']\<rparr>"
      "js ''{\"calories\":452.6,\"protein\":23.1,\"carbs\":33,\"fat\":25,\"confidence\":0.9,\"sources\":[\"USDA\"]}''",
      OF refl _ _ parseAIResponse_example]
  show ?thesis
    by (simp add: first_content_def js_empty_iff no_sources_def truthy_def)
qed

text \<open>
  C10, as amended. A result of the regular-expression fallback has in each of its four
  macro fields a natural number or \<open>Infinity\<close>, and confidence 0.6: every capture of
  the digit pattern is a non-empty run of decimal digits, and \<open>parseInt\<close> of such a
  run is a natural number, or \<open>Infinity\<close> when the run is too long for a double. So
  a result of \<open>parseAIResponse\<close> with a negative macro field, or with a confidence
  that is not a number in [0,1], is the result of the strict JSON decode.
\<close>

theorem extractNutritionFromText_range:
  "(extractNutritionFromText text = Inr r \<longrightarrow>
      natural_or_Infinity (calories r) \<and> natural_or_Infinity (protein r)
      \<and> natural_or_Infinity (carbs r) \<and> natural_or_Infinity (fat r)
      \<and> confidence r = JNumber (to_double 6 10) \<and> in_unit_interval (confidence r))
   \<and> (js_match (Plus Digit) tail text = Some g \<longrightarrow>
        g \<noteq> [] \<and> list_all is_digit g \<and> natural_or_Infinity (parseInt g))
   \<and> (parseAIResponse text = Inr r
        \<and> (is_negative (calories r) \<or> is_negative (protein r) \<or> is_negative (carbs r)
            \<or> is_negative (fat r) \<or> \<not> in_unit_interval (confidence r)) \<longrightarrow>
      decode_strict text = Some r)"
proof -
  have n: "natural_or_Infinity (Num 20)" "natural_or_Infinity (Num 30)"
    "natural_or_Infinity (Num 10)"
    by (simp_all add: natural_or_Infinity_def is_integer_def is_negative_def)
  have u: "in_unit_interval (JNumber (to_double 6 10))"
    by (simp add: in_unit_interval_def to_double_literals)
  have ext: "natural_or_Infinity (calories r) \<and> natural_or_Infinity (protein r)
      \<and> natural_or_Infinity (carbs r) \<and> natural_or_Infinity (fat r)
      \<and> confidence r = JNumber (to_double 6 10) \<and> in_unit_interval (confidence r)"
    if "extractNutritionFromText text = Inr r"
    using that
    by (auto simp: extractNutritionFromText_def Let_def parseInt_whole n u
        split: option.splits)
  have nonneg: "\<not> is_negative x" if "natural_or_Infinity x" for x
    using that by (auto simp: natural_or_Infinity_def is_negative_def)
  have strict: "decode_strict text = Some r"
    if p: "parseAIResponse text = Inr r"
      and bad: "is_negative (calories r) \<or> is_negative (protein r) \<or> is_negative (carbs r)
            \<or> is_negative (fat r) \<or> \<not> in_unit_interval (confidence r)"
  proof (cases "decode_strict text")
    case None
    with p have "extractNutritionFromText text = Inr r" by (simp add: parseAIResponse_def)
    from ext [OF this] bad nonneg show ?thesis by blast
  next
    case (Some r')
    with p show ?thesis by (simp add: parseAIResponse_def)
  qed
  from ext strict js_match_digits [of tail "text" g] parseInt_whole [of g]
  show ?thesis by blast
qed

text \<open>
  The theorem at the prose of the specification and at a JSON text with negative
  calories and confidence 7.
\<close>

theorem extractNutritionFromText_range_witness:
  "extractNutritionFromText (js ''This meal has about 450 kcal and 20g protein'')
   = Inr \<lparr>calories = Num 450, protein = Num 20, carbs = Num 30, fat = Num 10,
       explanation = JString (js ''This meal has about 450 kcal and 20g protein''),
       confidence = JNumber (to_double 6 10), sources = JArray []\<rparr>
   \<and> natural_or_Infinity (Num 450) \<and> natural_or_Infinity (Num 20)
   \<and> natural_or_Infinity (Num 30) \<and> natural_or_Infinity (Num 10)
   \<and> in_unit_interval (JNumber (to_double 6 10))
   \<and> list_all is_digit (js ''450'')
   \<and> parseAIResponse
       (js ''{\"calories\":-5,\"protein\":1,\"carbs\":1,\"fat\":1,\"confidence\":7}'')
     = Inr \<lparr>calories = Num (- 5), protein = Num 1, carbs = Num 1, fat = Num 1,
         explanation = JString (js ''No explanation provided''),
         confidence = JNumber (Num 7), sources = JArray []\<rparr>
   \<and> is_negative (Num (- 5)) \<and> \<not> in_unit_interval (JNumber (Num 7))
   \<and> decode_strict
       (js ''{\"calories\":-5,\"protein\":1,\"carbs\":1,\"fat\":1,\"confidence\":7}'')
     = Some \<lparr>calories = Num (- 5), protein = Num 1, carbs = Num 1, fat = Num 1,
         explanation = JString (js ''No explanation provided''),
         confidence = JNumber (Num 7), sources = JArray []\<rparr>"
proof -
  have e: "extractNutritionFromText (js ''This meal has about 450 kcal and 20g protein'')
   = Inr \<lparr>calories = Num 450, protein = Num 20, carbs = Num 30, fat = Num 10,
       explanation = JString (js ''This meal has about 450 kcal and 20g protein''),
       confidence = JNumber (to_double 6 10), sources = JArray []\<rparr>"
    using parseAIResponse_prose
    by (simp add: parseAIResponse_def decode_strict_def JSON_parse_prose)
  from extractNutritionFromText_range [of
      "js ''This meal has about 450 kcal and 20g protein''"
      "\<lparr>calories = Num 450, protein = Num 20, carbs = Num 30, fat = Num 10,
       explanation = JString (js ''This meal has about 450 kcal and 20g protein''),
       confidence = JNumber (to_double 6 10), sources = JArray []\<rparr>" calorie_tail "js ''450''"]
    extractNutritionFromText_range [of
      "js ''{\"calories\":-5,\"protein\":1,\"carbs\":1,\"fat\":1,\"confidence\":7}''"
      "\<lparr>calories = Num (- 5), protein = Num 1, carbs = Num 1, fat = Num 1,
         explanation = JString (js ''No explanation provided''),
         confidence = JNumber (Num 7), sources = JArray []\<rparr>" calorie_tail "js ''450''"]
    e parseAIResponse_negative
  show ?thesis
    by (simp add: js_match_example in_unit_interval_def is_negative_def)
qed

text \<open>
  C10 as stated fails: for a text of 309 nines followed by \<open>cal\<close> the fallback
  returns a result whose calories are \<open>Infinity\<close>, which is not an integer.
\<close>

theorem extractNutritionFromText_range_counterexample:
  "js_match (Plus Digit) calorie_tail (replicate 309 0x39 @ js ''cal'')
   = Some (replicate 309 0x39)
   \<and> parseInt (replicate 309 0x39) = Infinity
   \<and> \<not> isl (extractNutritionFromText (replicate 309 0x39 @ js ''cal''))
   \<and> calories (projr (extractNutritionFromText (replicate 309 0x39 @ js ''cal''))) = Infinity
   \<and> \<not> is_integer Infinity"
proof -
  have "\<not> is_integer Infinity" by (simp add: is_integer_def)
  then show ?thesis
    by (simp only: extractNutritionFromText_def Let_def js_match_nines parseInt_nines
        option.case sum.disc sum.sel AIAnalysisResult.select_convs simp_thms)
qed

section \<open>The debounced analyzer: bursts and aborts\<close>

lemma step_dead: "step cfg s e = Some s' \<Longrightarrow> dead s i \<Longrightarrow> dead s' i"
proof (cases e)
  case (Call now mealText)
  assume "step cfg s e = Some s'" "dead s i"
  with Call show ?thesis
    by (auto simp: dead_def clearTimeout_def split: if_splits option.splits)
next
  case (Fire now j)
  assume st: "step cfg s e = Some s'" and d: "dead s i"
  from st Fire obtain t where f: "find (\<lambda>t. timer_call t = j) (pending s) = Some t"
    by (auto split: option.splits)
  then have "j \<in> timer_call ` set (pending s)"
    by (auto simp: find_Some_iff)
  with d have ne: "j \<noteq> i" by (auto simp: dead_def)
  from st Fire f d ne show ?thesis
    by (auto simp: dead_def Let_def split: if_splits sum.splits)
next
  case (Reply now j outcome)
  assume st: "step cfg s e = Some s'" and d: "dead s i"
  from st Reply obtain request where m: "map_of (inflight s) j = Some request"
    by (auto split: option.splits)
  then have "j \<in> fst ` set (inflight s)"
    by (metis map_of_SomeD fst_conv image_eqI)
  with d have ne: "j \<noteq> i" by (auto simp: dead_def)
  from st Reply m d ne show ?thesis
    by (auto simp: dead_def split: if_splits)
qed

lemma run_dead: "run cfg s es = Some s' \<Longrightarrow> dead s i \<Longrightarrow> dead s' i"
  by (induction es arbitrary: s) (auto split: option.splits dest: step_dead)

lemma dead_not_settled: "dead s i \<Longrightarrow> \<not> is_settled s i"
  by (simp add: dead_def is_settled_def)

lemma sent_eq: "sent cfg x = snd (analyzeNutrition cfg net x)"
  by (simp add: sent_def analyzeNutrition_halves split: sum.splits)

lemma well_formed_init: "well_formed (createDebouncedAnalyzer d)"
  by (simp add: well_formed_def createDebouncedAnalyzer_def)

lemma find_timer:
  "find (\<lambda>t. timer_call t = j) ts = Some t \<Longrightarrow> t \<in> set ts \<and> timer_call t = j"
  by (auto simp: find_Some_iff)

lemma inflight_member: "map_of rs j = Some r \<Longrightarrow> (j, r) \<in> set rs"
  by (rule map_of_SomeD)

lemma step_well_formed: "step cfg s e = Some s' \<Longrightarrow> well_formed s \<Longrightarrow> well_formed s'"
proof (cases e)
  case (Call now mealText)
  assume "step cfg s e = Some s'" "well_formed s"
  with Call show ?thesis
    by (fastforce simp: well_formed_def clearTimeout_def less_Suc_eq
        split: if_splits option.splits)
next
  case (Fire now j)
  assume st: "step cfg s e = Some s'" and w: "well_formed s"
  from st Fire obtain t where f: "find (\<lambda>t. timer_call t = j) (pending s) = Some t"
    by (auto split: option.splits)
  from find_timer [OF f] w have "j < calls s" by (auto simp: well_formed_def)
  with st Fire f w show ?thesis
    by (fastforce simp: well_formed_def Let_def split: if_splits sum.splits)
next
  case (Reply now j outcome)
  assume st: "step cfg s e = Some s'" and w: "well_formed s"
  from st Reply obtain request where m: "map_of (inflight s) j = Some request"
    by (auto split: option.splits)
  from inflight_member [OF m] w have "j < calls s" by (fastforce simp: well_formed_def)
  with st Reply m w show ?thesis
    by (fastforce simp: well_formed_def split: if_splits)
qed

lemma run_well_formed: "run cfg s es = Some s' \<Longrightarrow> well_formed s \<Longrightarrow> well_formed s'"
  by (induction es arbitrary: s) (auto split: option.splits dest: step_well_formed)

lemma run_delay: "run cfg s es = Some s' \<Longrightarrow> delay s' = delay s"
proof (induction es arbitrary: s)
  case Nil
  then show ?case by simp
next
  case (Cons e es)
  then obtain s1 where st: "step cfg s e = Some s1" and r: "run cfg s1 es = Some s'"
    by (auto split: option.splits)
  from st have "delay s1 = delay s"
    by (cases e) (auto simp: Let_def split: option.splits if_splits sum.splits)
  with Cons.IH [OF r] show ?case by simp
qed

lemma first_call:
  assumes "well_formed s0" and "step cfg s0 (Call t x) = Some s"
  shows "armed s0 (calls s0) t x s"
proof -
  from assms(1) have "clearTimeout (timeoutId s0) (pending s0) = []"
    by (cases "timeoutId s0") (auto simp: well_formed_def clearTimeout_def filter_empty_conv)
  with assms show ?thesis
    by (auto simp: armed_def well_formed_def split: if_splits)
qed

lemma armed_Call:
  "armed s0 k t x s \<Longrightarrow> step cfg s (Call now y) = Some s' \<Longrightarrow> armed s0 (Suc k) now y s'"
  by (auto simp: armed_def clearTimeout_def split: if_splits)

lemma begin_blank: "is_blank x \<Longrightarrow> analyzeNutrition_begin cfg x = Inl empty_input"
  by (simp add: analyzeNutrition_begin_def)

lemma armed_Fire:
  "armed s0 k t x s \<Longrightarrow> step cfg s (Fire now j) = Some s' \<Longrightarrow> fired cfg s0 k t x s'"
  by (auto simp: armed_def fired_def sent_def Let_def begin_blank split: if_splits sum.splits)

lemma armed_Reply:
  assumes "armed s0 k t x s" and "step cfg s (Reply now j outcome) = Some s'"
  shows "armed s0 k t x s'"
proof -
  from assms(2) obtain request where m: "map_of (inflight s) j = Some request"
    by (auto split: option.splits)
  from inflight_member [OF m] assms(1) have "j < calls s0" by (fastforce simp: armed_def)
  with assms m show ?thesis
    by (auto simp: armed_def split: if_splits)
qed

lemma fired_Call:
  "fired cfg s0 k t x s \<Longrightarrow> step cfg s (Call now y) = Some s' \<Longrightarrow> t + delay s0 \<le> now"
  by (auto simp: fired_def split: if_splits)

lemma fired_Fire: "fired cfg s0 k t x s \<Longrightarrow> step cfg s (Fire now j) = None"
  by (simp add: fired_def)

lemma fired_Reply:
  assumes "fired cfg s0 k t x s" and "step cfg s (Reply now j outcome) = Some s'"
  shows "fired cfg s0 k t x s'"
proof -
  from assms(2) obtain request where m: "map_of (inflight s) j = Some request"
    by (auto split: option.splits)
  from inflight_member [OF m] assms(1) have "j < calls s0 \<or> j = k" by (fastforce simp: fired_def)
  with assms m show ?thesis
    by (auto simp: fired_def split: if_splits)
qed

lemma armed_can_fire:
  assumes "armed s0 k t x s" and "clock s \<le> now" and "t + delay s0 \<le> now"
  shows "\<exists>s'. step cfg s (Fire now k) = Some s' \<and> fired cfg s0 k t x s'"
proof -
  from assms obtain s' where "step cfg s (Fire now k) = Some s'"
    by (cases "analyzeNutrition_begin cfg x") (auto simp: armed_def Let_def)
  with armed_Fire [OF assms(1) this] show ?thesis by blast
qed

lemma calls_of_Cons_iff:
  "Call now y # evs = calls_of cs \<longleftrightarrow> (\<exists>cs'. cs = (now, y) # cs' \<and> evs = calls_of cs')"
  by (cases cs) (auto simp: calls_of_def)

lemma run_burst_general:
  "run cfg s es = Some s' \<Longrightarrow> filter is_call es = calls_of cs \<Longrightarrow>
   burst (delay s0) ((t, x) # cs) \<Longrightarrow>
     (armed s0 k t x s \<longrightarrow>
        armed s0 (k + length cs) (fst (last ((t, x) # cs))) (snd (last ((t, x) # cs))) s'
        \<or> fired cfg s0 (k + length cs) (fst (last ((t, x) # cs)))
             (snd (last ((t, x) # cs))) s')
     \<and> (fired cfg s0 k t x s \<longrightarrow> cs = [] \<and> fired cfg s0 k t x s')"
proof (induction es arbitrary: s k t x cs)
  case Nil
  then show ?case by (simp add: calls_of_def)
next
  case (Cons e es)
  from Cons.prems(1) obtain s1 where st: "step cfg s e = Some s1"
    and r: "run cfg s1 es = Some s'"
    by (auto split: option.splits)
  show ?case
  proof (cases e)
    case (Call now y)
    with Cons.prems(2) obtain cs' where cs: "cs = (now, y) # cs'"
      and f: "filter is_call es = calls_of cs'"
      by (auto simp: calls_of_Cons_iff)
    from Cons.prems(3) cs have early: "now < t + delay s0"
      and b: "burst (delay s0) ((now, y) # cs')"
      by simp_all
    note IH = Cons.IH [OF r f b, of "Suc k"]
    have a: "armed s0 (k + length cs) (fst (last ((t, x) # cs))) (snd (last ((t, x) # cs))) s'
        \<or> fired cfg s0 (k + length cs) (fst (last ((t, x) # cs)))
             (snd (last ((t, x) # cs))) s'"
      if "armed s0 k t x s"
    proof -
      from armed_Call [OF that] st Call have "armed s0 (Suc k) now y s1" by simp
      with IH show ?thesis by (simp add: cs)
    qed
    have "\<not> fired cfg s0 k t x s"
    proof
      assume "fired cfg s0 k t x s"
      from fired_Call [OF this] st Call have "t + delay s0 \<le> now" by simp
      with early show False by simp
    qed
    with a show ?thesis by blast
  next
    case (Fire now j)
    with Cons.prems(2) have f: "filter is_call es = calls_of cs" by simp
    note IH = Cons.IH [OF r f Cons.prems(3), of k]
    have a: "armed s0 (k + length cs) (fst (last ((t, x) # cs))) (snd (last ((t, x) # cs))) s'
        \<or> fired cfg s0 (k + length cs) (fst (last ((t, x) # cs)))
             (snd (last ((t, x) # cs))) s'"
      if "armed s0 k t x s"
    proof -
      from armed_Fire [OF that] st Fire have "fired cfg s0 k t x s1" by simp
      with IH have "cs = [] \<and> fired cfg s0 k t x s'" by simp
      then show ?thesis by simp
    qed
    have "\<not> fired cfg s0 k t x s"
    proof
      assume "fired cfg s0 k t x s"
      from fired_Fire [OF this] st Fire show False by simp
    qed
    with a show ?thesis by blast
  next
    case (Reply now j outcome)
    with Cons.prems(2) have f: "filter is_call es = calls_of cs" by simp
    note IH = Cons.IH [OF r f Cons.prems(3), of k]
    have a: "armed s0 k t x s1" if "armed s0 k t x s"
      using armed_Reply [OF that] st Reply by simp
    have b: "fired cfg s0 k t x s1" if "fired cfg s0 k t x s"
      using fired_Reply [OF that] st Reply by simp
    from IH a b show ?thesis by blast
  qed
qed

lemma armed_dead: "armed s0 k t x s \<Longrightarrow> calls s0 \<le> i \<Longrightarrow> i < k \<Longrightarrow> dead s i"
  by (fastforce simp: armed_def dead_def)

lemma fired_dead: "fired cfg s0 k t x s \<Longrightarrow> calls s0 \<le> i \<Longrightarrow> i < k \<Longrightarrow> dead s i"
  by (fastforce simp: fired_def dead_def)

lemma sent_length: "length (sent cfg x) = (if is_blank x then 0 else 1)"
  by (simp add: sent_def analyzeNutrition_begin_def Let_def)

text \<open>
  C4, as amended. Take any state of an analyzer, a burst of calls, and any sequence of
  events that begins with the first call of the burst and whose calls are those of the
  burst (requests of earlier calls may settle in between, the timer of the last call may
  run, anything may follow but a further call). Then since the state before the burst
  either nothing was invoked and nothing sent, and the timer of the last call can run
  at any time from one delay after that call on; or \<open>analyzeNutrition\<close> was invoked
  once, with the \<open>mealText\<close> of the last call, and sent the requests of that
  invocation: exactly one when that text is not blank, none when it is blank. When it
  is blank, the promise of the last call is rejected with EMPTY_INPUT as soon as the
  timer has run. Whatever happens later, further calls included, the promise of a
  superseded call of the burst is never settled.
\<close>

theorem debounced_burst:
  assumes "run cfg (createDebouncedAnalyzer d) earlier = Some s0"
    and "burst d (c # cs)"
    and "filter is_call es = calls_of cs"
    and "run cfg s0 (Call (fst c) (snd c) # es) = Some s"
  shows "(invocations s = invocations s0 \<and> dispatched s = dispatched s0
          \<and> (\<forall>now. clock s \<le> now \<and> fst (last (c # cs)) + d \<le> now \<longrightarrow>
                (\<exists>s'. step cfg s (Fire now (calls s0 + length cs)) = Some s'
                    \<and> invocations s' = invocations s0 @ [snd (last (c # cs))]
                    \<and> dispatched s' = dispatched s0 @ sent cfg (snd (last (c # cs)))
                    \<and> (is_blank (snd (last (c # cs))) \<longrightarrow>
                         (calls s0 + length cs,
                          Inl \<lparr>message = js ''Meal text cannot be empty'',
                               code = js ''EMPTY_INPUT'', retryable = False\<rparr>)
                         \<in> set (settled s'))))
          \<or> invocations s = invocations s0 @ [snd (last (c # cs))]
            \<and> dispatched s = dispatched s0 @ sent cfg (snd (last (c # cs)))
            \<and> (is_blank (snd (last (c # cs))) \<longrightarrow>
                 (calls s0 + length cs,
                  Inl \<lparr>message = js ''Meal text cannot be empty'',
                       code = js ''EMPTY_INPUT'', retryable = False\<rparr>)
                 \<in> set (settled s)))
       \<and> (\<forall>later s' i. run cfg s later = Some s' \<and> calls s0 \<le> i
              \<and> i < calls s0 + length cs \<longrightarrow> \<not> is_settled s' i)
       \<and> (\<forall>net. sent cfg (snd (last (c # cs)))
              = snd (analyzeNutrition cfg net (snd (last (c # cs)))))
       \<and> length (sent cfg (snd (last (c # cs))))
            = (if is_blank (snd (last (c # cs))) then 0 else 1)"
proof -
  define k where "k = calls s0 + length cs"
  define t where "t = fst (last (c # cs))"
  define x where "x = snd (last (c # cs))"
  from run_delay [OF assms(1)] have d: "delay s0 = d"
    by (simp add: createDebouncedAnalyzer_def)
  from run_well_formed [OF assms(1) well_formed_init] have w: "well_formed s0" .
  from assms(4) obtain s1 where st: "step cfg s0 (Call (fst c) (snd c)) = Some s1"
    and r: "run cfg s1 es = Some s"
    by (auto split: option.splits)
  from first_call [OF w st] have a1: "armed s0 (calls s0) (fst c) (snd c) s1" .
  from assms(2) have b: "burst (delay s0) ((fst c, snd c) # cs)" by (simp add: d)
  from run_burst_general [OF r assms(3) b, of "calls s0"] a1
  have af: "armed s0 k t x s \<or> fired cfg s0 k t x s"
    by (simp add: k_def t_def x_def)
  have ei: "empty_input = \<lparr>message = js ''Meal text cannot be empty'',
      code = js ''EMPTY_INPUT'', retryable = False\<rparr>"
    by (simp add: empty_input_def createAPIError_def)
  have main: "invocations s = invocations s0 \<and> dispatched s = dispatched s0
          \<and> (\<forall>now. clock s \<le> now \<and> t + d \<le> now \<longrightarrow>
                (\<exists>s'. step cfg s (Fire now k) = Some s'
                    \<and> invocations s' = invocations s0 @ [x]
                    \<and> dispatched s' = dispatched s0 @ sent cfg x
                    \<and> (is_blank x \<longrightarrow>
                         (k, Inl \<lparr>message = js ''Meal text cannot be empty'',
                                  code = js ''EMPTY_INPUT'', retryable = False\<rparr>)
                         \<in> set (settled s'))))
          \<or> invocations s = invocations s0 @ [x] \<and> dispatched s = dispatched s0 @ sent cfg x
            \<and> (is_blank x \<longrightarrow>
                 (k, Inl \<lparr>message = js ''Meal text cannot be empty'',
                          code = js ''EMPTY_INPUT'', retryable = False\<rparr>)
                 \<in> set (settled s))"
  proof (cases "armed s0 k t x s")
    case True
    have "\<exists>s'. step cfg s (Fire now k) = Some s'
                    \<and> invocations s' = invocations s0 @ [x]
                    \<and> dispatched s' = dispatched s0 @ sent cfg x
                    \<and> (is_blank x \<longrightarrow>
                         (k, Inl \<lparr>message = js ''Meal text cannot be empty'',
                                  code = js ''EMPTY_INPUT'', retryable = False\<rparr>)
                         \<in> set (settled s'))"
      if "clock s \<le> now" "t + d \<le> now" for now
      using armed_can_fire [OF True that(1), of cfg] that(2)
      by (auto simp: d fired_def ei)
    with True show ?thesis by (simp add: armed_def)
  next
    case False
    with af have "fired cfg s0 k t x s" by simp
    then show ?thesis by (simp add: fired_def ei)
  qed
  have never: "\<not> is_settled s' i"
    if "run cfg s later = Some s'" "calls s0 \<le> i" "i < k" for later s' i
  proof -
    from af that(2,3) have "dead s i" by (auto dest: armed_dead fired_dead)
    from run_dead [OF that(1) this] show ?thesis by (rule dead_not_settled)
  qed
  from main never sent_eq [of cfg x] sent_length [of cfg x]
  show ?thesis unfolding k_def t_def x_def by blast
qed

lemma not_blank_abc: "\<not> is_blank (js ''a'')" "\<not> is_blank (js ''ab'')" "\<not> is_blank (js ''abc'')"
  "\<not> is_blank (js ''banana'')" "is_blank (js '' '')"
  by (simp_all add: is_blank_iff js_def is_js_whitespace_def)

text \<open>
  Three calls within 100 ms under a delay of 800 ms, and the timer of the third: once
  with a third text that is not blank, once with one that is.
\<close>

theorem debounced_burst_witness:
  "burst 800 [(0, js ''a''), (50, js ''ab''), (100, js ''abc'')]
   \<and> (\<exists>s. run (config None None) (createDebouncedAnalyzer 800)
             [Call 0 (js ''a''), Call 50 (js ''ab''), Call 100 (js ''abc''), Fire 900 2] = Some s
        \<and> invocations s = [js ''abc'']
        \<and> dispatched s = sent (config None None) (js ''abc'')
        \<and> length (dispatched s) = 1
        \<and> \<not> is_settled s 0 \<and> \<not> is_settled s 1)
   \<and> burst 800 [(0, js ''a''), (50, js ''ab''), (100, js '' '')]
   \<and> (\<exists>s. run (config None None) (createDebouncedAnalyzer 800)
             [Call 0 (js ''a''), Call 50 (js ''ab''), Call 100 (js '' ''), Fire 900 2] = Some s
        \<and> invocations s = [js '' '']
        \<and> dispatched s = []
        \<and> (2, Inl \<lparr>message = js ''Meal text cannot be empty'', code = js ''EMPTY_INPUT'',
                     retryable = False\<rparr>) \<in> set (settled s)
        \<and> \<not> is_settled s 0 \<and> \<not> is_settled s 1)"
proof -
  have b: "burst 800 [(0, js ''a''), (50, js ''ab''), (100, js ''abc'')]" by simp
  have e0: "run (config None None) (createDebouncedAnalyzer 800) []
      = Some (createDebouncedAnalyzer 800)" by simp
  have f: "filter is_call [Call 50 (js ''ab''), Call 100 (js ''abc''), Fire 900 2]
      = calls_of [(50, js ''ab''), (100, js ''abc'')]"
    by (simp add: calls_of_def)
  have "map_option invocations
      (run (config None None) (createDebouncedAnalyzer 800)
         [Call 0 (js ''a''), Call 50 (js ''ab''), Call 100 (js ''abc''), Fire 900 2])
      = Some [js ''abc'']"
    by (simp add: createDebouncedAnalyzer_def clearTimeout_def analyzeNutrition_begin_def
        not_blank_abc Let_def provider_static)
  then obtain s where r: "run (config None None) (createDebouncedAnalyzer 800)
         [Call 0 (js ''a''), Call 50 (js ''ab''), Call 100 (js ''abc''), Fire 900 2] = Some s"
    and i: "invocations s = [js ''abc'']"
    by blast
  have init: "invocations (createDebouncedAnalyzer 800) = []"
    "dispatched (createDebouncedAnalyzer 800) = []" "calls (createDebouncedAnalyzer 800) = 0"
    by (simp_all add: createDebouncedAnalyzer_def)
  from r have r': "run (config None None) (createDebouncedAnalyzer 800)
      (Call (fst (0, js ''a'')) (snd (0, js ''a''))
         # [Call 50 (js ''ab''), Call 100 (js ''abc''), Fire 900 2]) = Some s"
    by (simp only: fst_conv snd_conv)
  have vals:
    "calls (createDebouncedAnalyzer 800) + length [(50 :: nat, js ''ab''), (100, js ''abc'')] = 2"
    "snd (last [(0 :: nat, js ''a''), (50, js ''ab''), (100, js ''abc'')]) = js ''abc''"
    "fst (last [(0 :: nat, js ''a''), (50, js ''ab''), (100, js ''abc'')]) + 800 = 900"
    by (simp_all add: init)
  note th = debounced_burst [OF e0 b f r', unfolded vals init]
  from th i have d: "dispatched s = sent (config None None) (js ''abc'')"
    by (simp del: step.simps run.simps)
  from th have one: "length (sent (config None None) (js ''abc'')) = 1"
    by (simp add: not_blank_abc del: step.simps run.simps)
  note nv = th [THEN conjunct2, THEN conjunct1, rule_format]
  have "\<not> is_settled s 0" by (rule nv [of "[]" s 0]) simp
  moreover have "\<not> is_settled s 1" by (rule nv [of "[]" s 1]) simp
  ultimately have "\<not> is_settled s 0 \<and> \<not> is_settled s 1" by simp
  with r i d one have first: "\<exists>s. run (config None None) (createDebouncedAnalyzer 800)
             [Call 0 (js ''a''), Call 50 (js ''ab''), Call 100 (js ''abc''), Fire 900 2] = Some s
        \<and> invocations s = [js ''abc'']
        \<and> dispatched s = sent (config None None) (js ''abc'')
        \<and> length (dispatched s) = 1
        \<and> \<not> is_settled s 0 \<and> \<not> is_settled s 1"
    by auto
  have b2: "burst 800 [(0, js ''a''), (50, js ''ab''), (100, js '' '')]" by simp
  have f2: "filter is_call [Call 50 (js ''ab''), Call 100 (js '' ''), Fire 900 2]
      = calls_of [(50, js ''ab''), (100, js '' '')]"
    by (simp add: calls_of_def)
  have "map_option invocations
      (run (config None None) (createDebouncedAnalyzer 800)
         [Call 0 (js ''a''), Call 50 (js ''ab''), Call 100 (js '' ''), Fire 900 2])
      = Some [js '' '']"
    by (simp add: createDebouncedAnalyzer_def clearTimeout_def analyzeNutrition_begin_def
        not_blank_abc Let_def provider_static)
  then obtain s2 where r2: "run (config None None) (createDebouncedAnalyzer 800)
         [Call 0 (js ''a''), Call 50 (js ''ab''), Call 100 (js '' ''), Fire 900 2] = Some s2"
    and i2: "invocations s2 = [js '' '']"
    by blast
  from r2 have r2': "run (config None None) (createDebouncedAnalyzer 800)
      (Call (fst (0, js ''a'')) (snd (0, js ''a''))
         # [Call 50 (js ''ab''), Call 100 (js '' ''), Fire 900 2]) = Some s2"
    by (simp only: fst_conv snd_conv)
  have vals2:
    "calls (createDebouncedAnalyzer 800) + length [(50 :: nat, js ''ab''), (100, js '' '')] = 2"
    "snd (last [(0 :: nat, js ''a''), (50, js ''ab''), (100, js '' '')]) = js '' ''"
    "fst (last [(0 :: nat, js ''a''), (50, js ''ab''), (100, js '' '')]) + 800 = 900"
    by (simp_all add: init)
  note th2 = debounced_burst [OF e0 b2 f2 r2', unfolded vals2 init]
  from th2 have none: "sent (config None None) (js '' '') = []"
    by (simp add: not_blank_abc del: step.simps run.simps)
  from th2 [THEN conjunct1] i2 none
  have fired2: "dispatched s2 = []
      \<and> (2, Inl \<lparr>message = js ''Meal text cannot be empty'', code = js ''EMPTY_INPUT'',
                   retryable = False\<rparr>) \<in> set (settled s2)"
    by (simp add: not_blank_abc numeral_2_eq_2 del: step.simps run.simps)
  note nv2 = th2 [THEN conjunct2, THEN conjunct1, rule_format]
  have "\<not> is_settled s2 0" by (rule nv2 [of "[]" s2 0]) simp
  moreover have "\<not> is_settled s2 1" by (rule nv2 [of "[]" s2 1]) simp
  ultimately have second: "\<exists>s. run (config None None) (createDebouncedAnalyzer 800)
             [Call 0 (js ''a''), Call 50 (js ''ab''), Call 100 (js '' ''), Fire 900 2] = Some s
        \<and> invocations s = [js '' '']
        \<and> dispatched s = []
        \<and> (2, Inl \<lparr>message = js ''Meal text cannot be empty'', code = js ''EMPTY_INPUT'',
                     retryable = False\<rparr>) \<in> set (settled s)
        \<and> \<not> is_settled s 0 \<and> \<not> is_settled s 1"
    using r2 i2 fired2 by blast
  from b first b2 second show ?thesis by (intro conjI)
qed

text \<open>
  C4 as stated fails: when the last call of the burst has a blank text, the timer runs,
  \<open>analyzeNutrition\<close> is invoked, and no request is sent.
\<close>

theorem debounced_blank_counterexample:
  "burst 800 [(0, js ''a''), (50, js ''ab''), (100, js '' '')]
   \<and> map_option invocations
       (run (config None None) (createDebouncedAnalyzer 800)
          [Call 0 (js ''a''), Call 50 (js ''ab''), Call 100 (js '' ''), Fire 900 2])
     = Some [js '' '']
   \<and> map_option dispatched
       (run (config None None) (createDebouncedAnalyzer 800)
          [Call 0 (js ''a''), Call 50 (js ''ab''), Call 100 (js '' ''), Fire 900 2])
     = Some []
   \<and> map_option settled
       (run (config None None) (createDebouncedAnalyzer 800)
          [Call 0 (js ''a''), Call 50 (js ''ab''), Call 100 (js '' ''), Fire 900 2])
     = Some [(2, Inl \<lparr>message = js ''Meal text cannot be empty'', code = js ''EMPTY_INPUT'',
                      retryable = False\<rparr>)]"
  by (simp add: createDebouncedAnalyzer_def clearTimeout_def analyzeNutrition_begin_def
      not_blank_abc empty_input_def createAPIError_def)

lemma request_signal:
  "signal (openRouterRequest mealText providerConfig) = None"
  "signal (perplexityRequest mealText providerConfig) = None"
  by (simp_all add: openRouterRequest_def perplexityRequest_def)

lemma begin_signal: "analyzeNutrition_begin cfg x = Inr request \<Longrightarrow> signal request = None"
  by (auto simp: analyzeNutrition_begin_def Let_def request_signal split: if_splits)

lemma step_unsignalled: "step cfg s e = Some s' \<Longrightarrow> unsignalled s \<Longrightarrow> unsignalled s'"
proof (cases e)
  case (Call now mealText)
  assume "step cfg s e = Some s'" "unsignalled s"
  with Call show ?thesis by (auto simp: unsignalled_def split: if_splits)
next
  case (Fire now j)
  assume "step cfg s e = Some s'" "unsignalled s"
  with Fire show ?thesis
    by (auto simp: unsignalled_def Let_def begin_signal
        split: option.splits if_splits sum.splits)
next
  case (Reply now j outcome)
  assume "step cfg s e = Some s'" "unsignalled s"
  with Reply show ?thesis
    by (auto simp: unsignalled_def split: option.splits if_splits)
qed

lemma run_unsignalled: "run cfg s es = Some s' \<Longrightarrow> unsignalled s \<Longrightarrow> unsignalled s'"
  by (induction es arbitrary: s) (auto split: option.splits dest: step_unsignalled)

lemma unsignalled_init: "unsignalled (createDebouncedAnalyzer d)"
  by (simp add: unsignalled_def createDebouncedAnalyzer_def)

text \<open>
  C5, which the code does not meet. No request that \<open>analyzeNutrition\<close> sends
  carries an abort signal, so in every state of an analyzer no request in flight has
  one, and a request that settles always settles the promise of its call with the
  outcome of the request as the network has it, whatever was aborted in between.
\<close>

theorem abort_without_signal:
  assumes "run cfg (createDebouncedAnalyzer d) es = Some s"
    and "step cfg s (Reply now i outcome) = Some s'"
  shows "(\<forall>r \<in> set (flying s). snd r = None)
       \<and> settled s' = settled s @ [(i, analyzeNutrition_resume cfg outcome)]
       \<and> signal (openRouterRequest mealText providerConfig) = None
       \<and> signal (perplexityRequest mealText providerConfig) = None"
proof -
  from run_unsignalled [OF assms(1) unsignalled_init] have u: "unsignalled s" .
  from assms(2) obtain request where m: "map_of (inflight s) i = Some request"
    by (auto split: option.splits)
  from map_of_SomeD [OF m] u have "signal request = None"
    by (fastforce simp: unsignalled_def)
  then have "delivered s request outcome = outcome" by (simp add: delivered_def)
  with assms(2) m have "settled s' = settled s @ [(i, analyzeNutrition_resume cfg outcome)]"
    by (auto split: if_splits)
  moreover from u have "\<forall>r \<in> set (flying s). snd r = None"
    by (auto simp: unsignalled_def flying_def)
  ultimately show ?thesis by (simp add: request_signal)
qed

text \<open>
  A call at 900 ms, while the request of the call at 0 ms is in flight, aborts the
  controller of that call; the request stays in flight, with no signal, and when the
  response comes the promise of the first call is resolved with its result.
\<close>

theorem abort_without_signal_witness:
  "(\<exists>s s'. run (config None None) (createDebouncedAnalyzer 800)
             [Call 0 (js ''apple''), Fire 800 0, Call 900 (js ''banana'')] = Some s
      \<and> aborted s = [0] \<and> flying s = [(0, None)] \<and> settled s = []
      \<and> step (config None None) s
           (Reply 1000 0 (Resolved
             \<lparr>choices = Some [Choice (Some (js ''This meal has about 450 kcal and 20g protein''))],
              citations = None\<rparr>)) = Some s'
      \<and> settled s'
        = [(0, Inr \<lparr>calories = Num 450, protein = Num 20, carbs = Num 30, fat = Num 10,
                explanation = JString (js ''This meal has about 450 kcal and 20g protein''),
                confidence = JNumber (to_double 6 10), sources = JArray []\<rparr>)])"
proof -
  have b: "analyzeNutrition_begin (config None None) (js ''apple'')
      = Inr (openRouterRequest (js ''apple'') (getCurrentProviderConfig (config None None)))"
    by (simp add: analyzeNutrition_begin_def not_blank_apple provider_static)
  have res: "analyzeNutrition_resume (config None None) (Resolved
             \<lparr>choices = Some [Choice (Some (js ''This meal has about 450 kcal and 20g protein''))],
              citations = None\<rparr>)
      = Inr \<lparr>calories = Num 450, protein = Num 20, carbs = Num 30, fat = Num 10,
                explanation = JString (js ''This meal has about 450 kcal and 20g protein''),
                confidence = JNumber (to_double 6 10), sources = JArray []\<rparr>"
    by (simp add: analyzeNutrition_resume_def provider_static openRouterResult_def
        first_content_def js_empty_iff parseAIResponse_prose)
  have "map_option (\<lambda>s. (aborted s, flying s, settled s))
      (run (config None None) (createDebouncedAnalyzer 800)
         [Call 0 (js ''apple''), Fire 800 0, Call 900 (js ''banana'')])
      = Some ([0], [(0, None)], [])"
    by (simp add: b createDebouncedAnalyzer_def clearTimeout_def flying_def request_signal)
  then obtain s where r: "run (config None None) (createDebouncedAnalyzer 800)
         [Call 0 (js ''apple''), Fire 800 0, Call 900 (js ''banana'')] = Some s"
    and a: "aborted s = [0]" and f: "flying s = [(0, None)]" and e: "settled s = []"
    by auto
  from f obtain request where fl: "inflight s = [(0, request)]"
    by (auto simp: flying_def)
  from r have "clock s = 900"
    by (auto simp: b createDebouncedAnalyzer_def clearTimeout_def)
  with fl obtain s' where st: "step (config None None) s
           (Reply 1000 0 (Resolved
             \<lparr>choices = Some [Choice (Some (js ''This meal has about 450 kcal and 20g protein''))],
              citations = None\<rparr>)) = Some s'"
    by simp
  from abort_without_signal [OF r st] e res
  have "settled s'
        = [(0, Inr \<lparr>calories = Num 450, protein = Num 20, carbs = Num 30, fat = Num 10,
                explanation = JString (js ''This meal has about 450 kcal and 20g protein''),
                confidence = JNumber (to_double 6 10), sources = JArray []\<rparr>)]"
    by simp
  with r a f e st show ?thesis by blast
qed

end
